theory Spec2Isabelle
  imports Main "HOL-Library.Word"
begin

section \<open>Common types\<close>

text \<open>Go errors as values. \<open>ExitError\<close> is \<open>cli.NewExitError(message, code)\<close>,
  \<open>Wrapped\<close> is \<open>errors.Wrap(err, 0)\<close> and \<open>Err\<close> is any other error value.\<close>

datatype error = Err string | ExitError string nat | Wrapped error

section \<open>Replication context: LSN positions\<close>

type_synonym LSN = "64 word"

text \<open>\<open>time.Time\<close> values are opaque to the code modelled here; they are only copied.\<close>

type_synonym Time = int

record XLogData =
  WALStart :: LSN
  ServerWALEnd :: LSN
  ServerTime :: Time
  WALData :: "8 word list"

text \<open>Modelled from the spec: \<open>statestorage.Offset\<close> is declared outside the available
  sources; the specification gives it as \<open>{lsn, timestamp, watermark?}\<close>.\<close>

record Offset =
  LSN :: LSN
  Timestamp :: Time
  Watermark :: "string option"

definition zeroOffset :: Offset where
  "zeroOffset = \<lparr>LSN = 0, Timestamp = 0, Watermark = None\<rparr>"

text \<open>Modelled from the spec: the state storage manager (\<open>statestorage.Manager\<close>) is only
  used through its interface, \<open>Get() (map[string]*Offset, error)\<close> and
  \<open>Set(key, *Offset) error\<close>. The offsets are Go pointers, so the manager carries the
  objects they point to: \<open>objects\<close> maps an address to the \<open>Offset\<close> stored there and
  \<open>nextAddress\<close> is the address the next allocation returns. \<open>offsets\<close> is the map
  handed out by \<open>Get\<close> (\<open>None\<close> is the nil map, an entry \<open>Some None\<close> a nil pointer);
  \<open>getError\<close> and \<open>setError\<close> are the errors the two calls return, if any.\<close>

record Manager =
  objects :: "nat \<Rightarrow> Offset"
  nextAddress :: nat
  offsets :: "(string \<rightharpoonup> nat option) option"
  getError :: "error option"
  setError :: "error option"

definition Get :: "Manager \<Rightarrow> error + (string \<rightharpoonup> nat option) option" where
  "Get m = (case getError m of Some e \<Rightarrow> Inl e | None \<Rightarrow> Inr (offsets m))"

definition Set :: "string \<Rightarrow> nat option \<Rightarrow> Manager \<Rightarrow> error option \<times> Manager" where
  "Set key v m =
     (case setError m of
        Some e \<Rightarrow> (Some e, m)
      | None \<Rightarrow>
          (None, m\<lparr>offsets :=
             Some ((case offsets m of None \<Rightarrow> Map.empty | Some os \<Rightarrow> os)(key \<mapsto> v))\<rparr>))"

text \<open>The \<open>replicationContext\<close> struct. Of the objects it points to only the state
  storage manager is kept; the connection configuration, the side channel, the task
  manager and the publication manager play no part in the methods modelled here.\<close>

record replicationContext =
  stateStorageManager :: Manager
  snapshotInitialMode :: string
  snapshotBatchSize :: int
  publicationName :: string
  publicationCreate :: bool
  publicationAutoDrop :: bool
  replicationSlotName :: string
  replicationSlotCreate :: bool
  replicationSlotAutoDrop :: bool
  timeline :: int
  systemId :: string
  databaseName :: string
  walLevel :: string
  lastBeginLSN :: LSN
  lastCommitLSN :: LSN
  lastReceivedLSN :: LSN
  lastProcessedLSN :: LSN
  lastTransactionId :: "32 word"
  pgVersion :: nat
  tsdbVersion :: nat

text \<open>\<open>rc.Offset()\<close>: the stored pointer for the replication slot, \<open>nil\<close> when there is
  none.\<close>

definition Offset :: "replicationContext \<Rightarrow> error + nat option" where
  "Offset rc =
     (case Get (stateStorageManager rc) of
        Inl err \<Rightarrow> Inl err
      | Inr None \<Rightarrow> Inr None
      | Inr (Some os) \<Rightarrow>
          (case os (replicationSlotName rc) of
             Some off \<Rightarrow> Inr off
           | None \<Rightarrow> Inr None))"

definition SetPositionLSNs :: "LSN \<Rightarrow> LSN \<Rightarrow> replicationContext \<Rightarrow> replicationContext" where
  "SetPositionLSNs receivedLSN processedLSN rc =
     rc\<lparr>lastReceivedLSN := receivedLSN, lastProcessedLSN := processedLSN\<rparr>"

definition AcknowledgeReceived :: "XLogData \<Rightarrow> replicationContext \<Rightarrow> replicationContext" where
  "AcknowledgeReceived xld rc =
     rc\<lparr>lastReceivedLSN := WALStart xld + of_nat (length (WALData xld))\<rparr>"

text \<open>\<open>&statestorage.Offset{}\<close>: a new zero-valued object.\<close>

definition newOffset :: "Manager \<Rightarrow> nat \<times> Manager" where
  "newOffset m =
     (nextAddress m,
      m\<lparr>objects := (objects m)(nextAddress m := zeroOffset),
        nextAddress := Suc (nextAddress m)\<rparr>)"

definition AcknowledgeProcessed ::
  "XLogData \<Rightarrow> LSN option \<Rightarrow> replicationContext \<Rightarrow> error option \<times> replicationContext" where
  "AcknowledgeProcessed xld processedLSN rc =
     (let newLastProcessedLSN =
            (case processedLSN of
               Some p \<Rightarrow> p
             | None \<Rightarrow> WALStart xld + of_nat (length (WALData xld)));
          rc1 = (if newLastProcessedLSN > lastProcessedLSN rc
                 then rc\<lparr>lastProcessedLSN := newLastProcessedLSN\<rparr> else rc)
      in case Offset rc1 of
           Inl err \<Rightarrow> (Some err, rc1)
         | Inr off \<Rightarrow>
             (let (p, m1) = (case off of
                               None \<Rightarrow> newOffset (stateStorageManager rc1)
                             | Some a \<Rightarrow> (a, stateStorageManager rc1));
                  m2 = m1\<lparr>objects := (objects m1)
                          (p := (objects m1 p)\<lparr>LSN := lastProcessedLSN rc1,
                                               Timestamp := ServerTime xld\<rparr>)\<rparr>;
                  (err, m3) = Set (replicationSlotName rc1) (Some p) m2
              in (err, rc1\<lparr>stateStorageManager := m3\<rparr>)))"

text \<open>What the state store holds for the slot: the object its entry points to.\<close>

definition persistedOffset :: "replicationContext \<Rightarrow> Offset option" where
  "persistedOffset rc =
     (case offsets (stateStorageManager rc) of
        None \<Rightarrow> None
      | Some os \<Rightarrow>
          (case os (replicationSlotName rc) of
             Some (Some p) \<Rightarrow> Some (objects (stateStorageManager rc) p)
           | _ \<Rightarrow> None))"

definition SetLastTransactionId :: "32 word \<Rightarrow> replicationContext \<Rightarrow> replicationContext" where
  "SetLastTransactionId xid rc = rc\<lparr>lastTransactionId := xid\<rparr>"

definition SetLastBeginLSN :: "LSN \<Rightarrow> replicationContext \<Rightarrow> replicationContext" where
  "SetLastBeginLSN lsn rc = rc\<lparr>lastBeginLSN := lsn\<rparr>"

definition SetLastCommitLSN :: "LSN \<Rightarrow> replicationContext \<Rightarrow> replicationContext" where
  "SetLastCommitLSN lsn rc = rc\<lparr>lastCommitLSN := lsn\<rparr>"

text \<open>The state-changing methods of the replication context, and an execution as a
  sequence of calls to them.\<close>

datatype contextCall =
    CallSetLastTransactionId "32 word"
  | CallSetLastBeginLSN LSN
  | CallSetLastCommitLSN LSN
  | CallSetPositionLSNs LSN LSN
  | CallAcknowledgeReceived XLogData
  | CallAcknowledgeProcessed XLogData "LSN option"

fun call :: "contextCall \<Rightarrow> replicationContext \<Rightarrow> replicationContext" where
  "call (CallSetLastTransactionId xid) rc = SetLastTransactionId xid rc"
| "call (CallSetLastBeginLSN lsn) rc = SetLastBeginLSN lsn rc"
| "call (CallSetLastCommitLSN lsn) rc = SetLastCommitLSN lsn rc"
| "call (CallSetPositionLSNs receivedLSN processedLSN) rc =
     SetPositionLSNs receivedLSN processedLSN rc"
| "call (CallAcknowledgeReceived xld) rc = AcknowledgeReceived xld rc"
| "call (CallAcknowledgeProcessed xld processedLSN) rc =
     snd (AcknowledgeProcessed xld processedLSN rc)"

fun execution :: "contextCall list \<Rightarrow> replicationContext \<Rightarrow> replicationContext" where
  "execution [] rc = rc"
| "execution (c # cs) rc = execution cs (call c rc)"

fun isSetPositionLSNs :: "contextCall \<Rightarrow> bool" where
  "isSetPositionLSNs (CallSetPositionLSNs receivedLSN processedLSN) = True"
| "isSetPositionLSNs _ = False"

text \<open>Concrete values used in worked examples.\<close>

definition exampleManager :: Manager where
  "exampleManager =
     \<lparr>objects = (\<lambda>a. zeroOffset), nextAddress = 0, offsets = None,
      getError = None, setError = None\<rparr>"

definition exampleContext :: replicationContext where
  "exampleContext =
     \<lparr>stateStorageManager = exampleManager,
      snapshotInitialMode = ''never'', snapshotBatchSize = 1000,
      publicationName = ''pub'', publicationCreate = True, publicationAutoDrop = True,
      replicationSlotName = ''slot'', replicationSlotCreate = True,
      replicationSlotAutoDrop = True,
      timeline = 1, systemId = ''1'', databaseName = ''db'', walLevel = ''logical'',
      lastBeginLSN = 0, lastCommitLSN = 0, lastReceivedLSN = 7, lastProcessedLSN = 5,
      lastTransactionId = 0, pgVersion = 150000, tsdbVersion = 21200\<rparr>"

definition exampleXLogData :: XLogData where
  "exampleXLogData = \<lparr>WALStart = 16, ServerWALEnd = 16, ServerTime = 1000, WALData = [1, 2, 3]\<rparr>"

subsection \<open>Construction\<close>

text \<open>The settings \<open>NewReplicationContext\<close> reads from the configuration (with
  \<open>spiconfig.GetOrDefault\<close>, of a package outside the available sources) are its
  argument here.\<close>

record contextSettings =
  settingPublicationName :: string
  settingPublicationCreate :: bool
  settingPublicationAutoDrop :: bool
  settingSnapshotInitialMode :: string
  settingSnapshotBatchSize :: int
  settingReplicationSlotName :: string
  settingReplicationSlotCreate :: bool
  settingReplicationSlotAutoDrop :: bool

text \<open>What the calls made during construction return: the task manager constructor,
  the side channel provider and the four queries of the side channel.
  \<open>GetTimescaleDBVersion\<close> returns the version and whether the extension was found.\<close>

record 'sc database =
  newTaskManager :: "error option"
  sideChannelProvider :: "error + 'sc"
  GetPostgresVersion :: "'sc \<Rightarrow> error + nat"
  GetTimescaleDBVersion :: "'sc \<Rightarrow> error + nat \<times> bool"
  GetSystemInformation :: "'sc \<Rightarrow> error + string \<times> string \<times> int"
  GetWalLevel :: "'sc \<Rightarrow> error + string"

definition NewReplicationContext ::
  "contextSettings \<Rightarrow> Manager \<Rightarrow> 'sc database \<Rightarrow> error + replicationContext" where
  "NewReplicationContext settings manager db =
     (case newTaskManager db of
        Some err \<Rightarrow> Inl (Wrapped err)
      | None \<Rightarrow>
          (let rc = \<lparr>stateStorageManager = manager,
                     snapshotInitialMode = settingSnapshotInitialMode settings,
                     snapshotBatchSize = settingSnapshotBatchSize settings,
                     publicationName = settingPublicationName settings,
                     publicationCreate = settingPublicationCreate settings,
                     publicationAutoDrop = settingPublicationAutoDrop settings,
                     replicationSlotName = settingReplicationSlotName settings,
                     replicationSlotCreate = settingReplicationSlotCreate settings,
                     replicationSlotAutoDrop = settingReplicationSlotAutoDrop settings,
                     timeline = 0, systemId = [], databaseName = [], walLevel = [],
                     lastBeginLSN = 0, lastCommitLSN = 0, lastReceivedLSN = 0,
                     lastProcessedLSN = 0, lastTransactionId = 0,
                     pgVersion = 0, tsdbVersion = 0\<rparr>
           in case sideChannelProvider db of
                Inl err \<Rightarrow> Inl err
              | Inr sideChannel \<Rightarrow>
                  (case GetPostgresVersion db sideChannel of
                     Inl err \<Rightarrow> Inl err
                   | Inr pgVersion' \<Rightarrow>
                       (case GetTimescaleDBVersion db sideChannel of
                          Inl err \<Rightarrow> Inl err
                        | Inr (tsdbVersion', found) \<Rightarrow>
                            if \<not> found then
                              Inl (ExitError ''TimescaleDB extension not found'' 17)
                            else
                              (case GetSystemInformation db sideChannel of
                                 Inl err \<Rightarrow> Inl err
                               | Inr (databaseName', systemId', timeline') \<Rightarrow>
                                   (case GetWalLevel db sideChannel of
                                      Inl err \<Rightarrow> Inl err
                                    | Inr walLevel' \<Rightarrow>
                                        Inr (rc\<lparr>pgVersion := pgVersion',
                                                tsdbVersion := tsdbVersion',
                                                databaseName := databaseName',
                                                systemId := systemId',
                                                timeline := timeline',
                                                walLevel := walLevel'\<rparr>)))))))"

definition exampleSettings :: contextSettings where
  "exampleSettings =
     \<lparr>settingPublicationName = ''pub'', settingPublicationCreate = True,
      settingPublicationAutoDrop = True, settingSnapshotInitialMode = ''never'',
      settingSnapshotBatchSize = 1000, settingReplicationSlotName = ''slot'',
      settingReplicationSlotCreate = True, settingReplicationSlotAutoDrop = True\<rparr>"

text \<open>A database without the TimescaleDB extension.\<close>

definition plainPostgres :: "unit database" where
  "plainPostgres =
     \<lparr>newTaskManager = None, sideChannelProvider = Inr (),
      GetPostgresVersion = (\<lambda>sc. Inr 150000),
      GetTimescaleDBVersion = (\<lambda>sc. Inr (0, False)),
      GetSystemInformation = (\<lambda>sc. Inr (''db'', ''1'', 1)),
      GetWalLevel = (\<lambda>sc. Inr ''logical'')\<rparr>"

section \<open>Schema builder\<close>

text \<open>The schema types (\<open>schema.Type\<close>) the builder constructors name.\<close>

datatype Type =
  INT8 | INT16 | INT32 | INT64 | FLOAT32 | FLOAT64 | BOOLEAN | STRING | BYTES
  | ARRAY | MAP | STRUCT

text \<open>Values of type \<open>float64\<close> are never inspected by the code modelled here; what
  \<open>strconv.ParseFloat\<close> returns is a parameter of \<open>Build\<close>.\<close>

typedecl float64

text \<open>A \<open>Struct\<close> is Go's \<open>map[string]any\<close>; \<open>svalue\<close> are the values the builder stores
  in one: a schema type, a string, an \<open>int\<close>, a \<open>bool\<close>, an \<open>int64\<close>, a \<open>float64\<close>,
  a nested \<open>Struct\<close>, a slice of \<open>Struct\<close>s or a slice of strings.\<close>

datatype svalue =
    VType Type
  | VString string
  | VInt int
  | VBool bool
  | VInt64 int
  | VFloat64 float64
  | VStruct "string \<Rightarrow> svalue option"
  | VStructs "(string \<Rightarrow> svalue option) list"
  | VStrings "string list"

type_synonym Struct = "string \<rightharpoonup> svalue"

text \<open>The keys of a schema \<open>Struct\<close>. The constants are declared in another file of the
  package; they are distinct strings, given here with their Kafka Connect names.\<close>

definition FieldNameType :: string where "FieldNameType = ''type''"
definition FieldNameFields :: string where "FieldNameFields = ''fields''"
definition FieldNameField :: string where "FieldNameField = ''field''"
definition FieldNameName :: string where "FieldNameName = ''name''"
definition FieldNameIndex :: string where "FieldNameIndex = ''index''"
definition FieldNameOptional :: string where "FieldNameOptional = ''optional''"
definition FieldNameDefault :: string where "FieldNameDefault = ''default''"
definition FieldNameKeySchema :: string where "FieldNameKeySchema = ''keySchema''"
definition FieldNameValueSchema :: string where "FieldNameValueSchema = ''valueSchema''"

subsection \<open>\<open>strconv.ParseBool\<close> and \<open>strconv.ParseInt\<close>\<close>

text \<open>\<open>strconv.ParseBool\<close>: \<open>None\<close> is the syntax error.\<close>

definition ParseBool :: "string \<Rightarrow> bool option" where
  "ParseBool str =
     (if str \<in> set [''1'', ''t'', ''T'', ''true'', ''TRUE'', ''True''] then Some True
      else if str \<in> set [''0'', ''f'', ''F'', ''false'', ''FALSE'', ''False''] then Some False
      else None)"

datatype numError = ErrSyntax | ErrRange

definition isDigit :: "char \<Rightarrow> bool" where
  "isDigit c = (48 \<le> (of_char c :: nat) \<and> (of_char c :: nat) \<le> 57)"

definition maxUint64 :: nat where
  "maxUint64 = 2 ^ 64 - 1"

text \<open>The digit loop of \<open>strconv.ParseUint(s, 10, 64)\<close>: in base 10 every byte that is not
  a decimal digit (an underscore too) is a syntax error; the accumulator is checked
  against the cutoff \<open>maxUint64 / 10 + 1\<close> before the multiplication and against
  \<open>maxUint64\<close> after the addition.\<close>

fun parseUintDigits :: "nat \<Rightarrow> string \<Rightarrow> numError + nat" where
  "parseUintDigits n [] = Inr n"
| "parseUintDigits n (c # cs) =
     (if \<not> isDigit c then Inl ErrSyntax
      else if n \<ge> maxUint64 div 10 + 1 then Inl ErrRange
      else if n * 10 + (of_char c - 48) > maxUint64 then Inl ErrRange
      else parseUintDigits (n * 10 + (of_char c - 48)) cs)"

definition ParseUint :: "string \<Rightarrow> numError + nat" where
  "ParseUint s = (if s = [] then Inl ErrSyntax else parseUintDigits 0 s)"

text \<open>\<open>strconv.ParseInt(s, 10, 64)\<close>: an optional sign, then \<open>ParseUint\<close>; a magnitude
  beyond the \<open>int64\<close> range is a range error. The result is the \<open>int64\<close> value.\<close>

definition ParseInt :: "string \<Rightarrow> numError + int" where
  "ParseInt s =
     (if s = [] then Inl ErrSyntax
      else
        let neg = (hd s = CHR ''-'');
            s1 = (if hd s = CHR ''+'' \<or> hd s = CHR ''-'' then tl s else s)
        in case ParseUint s1 of
             Inl ErrSyntax \<Rightarrow> Inl ErrSyntax
           | Inl ErrRange \<Rightarrow> Inl ErrRange
           | Inr un \<Rightarrow>
               if \<not> neg \<and> un \<ge> 2 ^ 63 then Inl ErrRange
               else if neg \<and> un > 2 ^ 63 then Inl ErrRange
               else Inr (if neg then - int un else int un))"

subsection \<open>The builder\<close>

text \<open>\<open>schemaBuilderImpl\<close> and \<open>fieldImpl\<close>. A nil map, a nil pointer and a nil interface
  are \<open>None\<close>. The \<open>fields\<close> map is kept as the list of its entries in the order the map
  iteration yields them.\<close>

datatype schemaBuilderImpl =
  SchemaBuilderImpl
    (fieldName : string)
    (schemaName : string)
    (schemaType : Type)
    (version : int)
    (optional : bool)
    (defaultValue : "string option")
    (documentation : "string option")
    (index : int)
    (parameters : "(string \<Rightarrow> svalue option) option")
    (fields : "(string \<times> fieldImpl) list option")
    (keySchemaBuilder : "schemaBuilderImpl option")
    (valueSchemaBuilder : "schemaBuilderImpl option")
and fieldImpl =
  FieldImpl
    (name : string)
    (Index : int)
    (SchemaStruct : "(string \<Rightarrow> svalue option) option")
    (SchemaBuilder : "schemaBuilderImpl option")

definition NewSchemaBuilder :: "Type \<Rightarrow> schemaBuilderImpl" where
  "NewSchemaBuilder ty =
     SchemaBuilderImpl [] [] ty 0 False None None (- 1) None None None None"

text \<open>\<open>Clone\<close> lists eleven of the twelve fields in its composite literal; \<open>index\<close> is
  not among them and so takes Go's zero value.\<close>

definition Clone :: "schemaBuilderImpl \<Rightarrow> schemaBuilderImpl" where
  "Clone s =
     SchemaBuilderImpl (fieldName s) (schemaName s) (schemaType s) (version s) (optional s)
       (defaultValue s) (documentation s) 0 (parameters s) (fields s)
       (keySchemaBuilder s) (valueSchemaBuilder s)"

text \<open>The coercion of the default value string in \<open>Build\<close>.\<close>

definition coerceDefault :: "(string \<Rightarrow> float64 option) \<Rightarrow> string \<Rightarrow> svalue" where
  "coerceDefault ParseFloat str =
     (case ParseBool str of
        Some v \<Rightarrow> VBool v
      | None \<Rightarrow>
          (case ParseInt str of
             Inr v \<Rightarrow> VInt64 v
           | Inl _ \<Rightarrow>
               (case ParseFloat str of
                  Some v \<Rightarrow> VFloat64 v
                | None \<Rightarrow> VString str)))"

text \<open>The entries \<open>Build\<close> writes after the type-specific ones, in the order of the code;
  the parameters come last and overwrite entries of the same key.\<close>

definition commonEntries ::
  "(string \<Rightarrow> float64 option) \<Rightarrow> schemaBuilderImpl \<Rightarrow> Struct \<Rightarrow> Struct" where
  "commonEntries ParseFloat s st =
     (let st1 = (if fieldName s \<noteq> [] then st(FieldNameField \<mapsto> VString (fieldName s)) else st);
          st2 = (if schemaName s \<noteq> [] then st1(FieldNameName \<mapsto> VString (schemaName s))
                 else st1);
          st3 = (if index s > - 1 then st2(FieldNameIndex \<mapsto> VInt (index s)) else st2);
          st4 = (if optional s then st3(FieldNameOptional \<mapsto> VBool True) else st3);
          st5 = (case defaultValue s of
                   Some str \<Rightarrow> st4(FieldNameDefault \<mapsto> coerceDefault ParseFloat str)
                 | None \<Rightarrow> st4)
      in case parameters s of
           Some ps \<Rightarrow> st5 ++ ps
         | None \<Rightarrow> st5)"

text \<open>\<open>Build\<close>. \<open>None\<close> is the panic of a call through a nil builder. The struct fields
  are sorted by index (\<open>supporting.Sort\<close>, modelled by a stable sort).\<close>

fun Build :: "(string \<Rightarrow> float64 option) \<Rightarrow> schemaBuilderImpl \<Rightarrow> Struct option"
and buildField :: "(string \<Rightarrow> float64 option) \<Rightarrow> fieldImpl \<Rightarrow> Struct option" where
  "Build ParseFloat (SchemaBuilderImpl fn sn ty ver opt dv doc idx ps fs kb vb) =
     (let s = SchemaBuilderImpl fn sn ty ver opt dv doc idx ps fs kb vb;
          schemaStruct = [FieldNameType \<mapsto> VType ty]
      in case ty of
           ARRAY \<Rightarrow>
             (case vb of
                None \<Rightarrow> None
              | Some v \<Rightarrow>
                  (case Build ParseFloat v of
                     None \<Rightarrow> None
                   | Some vs \<Rightarrow>
                       Some (commonEntries ParseFloat s
                               (schemaStruct(FieldNameValueSchema \<mapsto> VStruct vs)))))
         | MAP \<Rightarrow>
             (case kb of
                None \<Rightarrow> None
              | Some k \<Rightarrow>
                  (case Build ParseFloat k of
                     None \<Rightarrow> None
                   | Some ks \<Rightarrow>
                       (case vb of
                          None \<Rightarrow> None
                        | Some v \<Rightarrow>
                            (case Build ParseFloat v of
                               None \<Rightarrow> None
                             | Some vs \<Rightarrow>
                                 Some (commonEntries ParseFloat s
                                         (schemaStruct(FieldNameKeySchema \<mapsto> VStruct ks,
                                                       FieldNameValueSchema \<mapsto> VStruct vs)))))))
         | STRUCT \<Rightarrow>
             (case those (map (buildField ParseFloat)
                       (sort_key Index (map snd (case fs of None \<Rightarrow> [] | Some l \<Rightarrow> l)))) of
                None \<Rightarrow> None
              | Some fieldSchemas \<Rightarrow>
                  Some (commonEntries ParseFloat s
                          (schemaStruct(FieldNameFields \<mapsto> VStructs fieldSchemas))))
         | _ \<Rightarrow> Some (commonEntries ParseFloat s schemaStruct))"
| "buildField ParseFloat (FieldImpl n i st sb) =
     (case st of
        Some schemaStruct \<Rightarrow> Some schemaStruct
      | None \<Rightarrow> (case sb of None \<Rightarrow> None | Some b \<Rightarrow> Build ParseFloat b))"

text \<open>The entry \<open>Build\<close> leaves under the key \<open>FieldNameDefault\<close>, if it returns.\<close>

definition emittedDefault ::
  "(string \<Rightarrow> float64 option) \<Rightarrow> schemaBuilderImpl \<Rightarrow> svalue option" where
  "emittedDefault ParseFloat s =
     (case Build ParseFloat s of None \<Rightarrow> None | Some st \<Rightarrow> st FieldNameDefault)"

text \<open>Concrete values used in worked examples: a \<open>ParseFloat\<close> that rejects every string,
  a string builder with a default value, and the same builder with a parameter stored
  under the key of the default entry.\<close>

definition rejectFloat :: "string \<Rightarrow> float64 option" where
  "rejectFloat str = None"

definition stringWithDefault :: "string \<Rightarrow> schemaBuilderImpl" where
  "stringWithDefault str =
     SchemaBuilderImpl [] [] STRING 0 False (Some str) None (- 1) None None None None"

definition stringWithDefaultParameter :: "string \<Rightarrow> schemaBuilderImpl" where
  "stringWithDefaultParameter str =
     SchemaBuilderImpl [] [] STRING 0 False (Some str) None (- 1)
       (Some [FieldNameDefault \<mapsto> VString ''x'']) None None None"

section \<open>Schema registry\<close>

text \<open>The registry's map from schema names to schemas. A creator is a Go closure: it
  returns a schema and may change the registry (the lock is re-entrant) and whatever else
  the program's state holds, which is the extension part of the record.\<close>

record Registry =
  schemaRegistry :: "string \<rightharpoonup> Struct"

definition RegisterSchema :: "string \<Rightarrow> Struct \<Rightarrow> 'w Registry_scheme \<Rightarrow> 'w Registry_scheme" where
  "RegisterSchema key schema r = r\<lparr>schemaRegistry := (schemaRegistry r)(key \<mapsto> schema)\<rparr>"

definition GetSchema :: "string \<Rightarrow> 'w Registry_scheme \<Rightarrow> Struct option" where
  "GetSchema key r = schemaRegistry r key"

definition GetSchemaOrCreate ::
  "string \<Rightarrow> ('w Registry_scheme \<Rightarrow> Struct \<times> 'w Registry_scheme) \<Rightarrow> 'w Registry_scheme
     \<Rightarrow> Struct \<times> 'w Registry_scheme" where
  "GetSchemaOrCreate key creator r =
     (case schemaRegistry r key of
        Some schema \<Rightarrow> (schema, r)
      | None \<Rightarrow>
          (let (schema, r1) = creator r
           in (schema, r1\<lparr>schemaRegistry := (schemaRegistry r1)(key \<mapsto> schema)\<rparr>)))"

text \<open>A program state that counts, for every schema name, the creators invoked for it.
  \<open>counted key creator\<close> is the creator passed to \<open>GetSchemaOrCreate\<close> for the name
  \<open>key\<close>, made to count its own invocation on entry; \<open>returning schema\<close> is a creator
  that only returns a schema.\<close>

record CountedRegistry = Registry +
  creatorCalls :: "string \<Rightarrow> nat"

definition counted ::
  "string \<Rightarrow> ('z CountedRegistry_scheme \<Rightarrow> Struct \<times> 'z CountedRegistry_scheme)
     \<Rightarrow> 'z CountedRegistry_scheme \<Rightarrow> Struct \<times> 'z CountedRegistry_scheme" where
  "counted key creator r =
     creator (r\<lparr>creatorCalls := (creatorCalls r)(key := Suc (creatorCalls r key))\<rparr>)"

definition returning :: "Struct \<Rightarrow> 'w Registry_scheme \<Rightarrow> Struct \<times> 'w Registry_scheme" where
  "returning schema r = (schema, r)"

text \<open>A sequence of \<open>GetSchemaOrCreate\<close> calls for one name.\<close>

fun requests ::
  "string \<Rightarrow> ('w Registry_scheme \<Rightarrow> Struct \<times> 'w Registry_scheme) list \<Rightarrow> 'w Registry_scheme
     \<Rightarrow> Struct list \<times> 'w Registry_scheme" where
  "requests key [] r = ([], r)"
| "requests key (creator # creators) r =
     (let (schema, r1) = GetSchemaOrCreate key creator r;
          (schemas, r2) = requests key creators r1
      in (schema # schemas, r2))"

definition emptyCounted :: CountedRegistry where
  "emptyCounted = \<lparr>schemaRegistry = Map.empty, creatorCalls = (\<lambda>key. 0)\<rparr>"

definition int8Schema :: Struct where
  "int8Schema = [FieldNameType \<mapsto> VType INT8]"

definition int16Schema :: Struct where
  "int16Schema = [FieldNameType \<mapsto> VType INT16]"

text \<open>A creator that re-enters the registry, which the re-entrant lock allows: it requests
  the name it is creating, with a creator returning the INT16 schema, and then returns the
  INT8 schema.\<close>

definition reentrantCreator ::
  "string \<Rightarrow> 'z CountedRegistry_scheme \<Rightarrow> Struct \<times> 'z CountedRegistry_scheme" where
  "reentrantCreator key r =
     (let (inner, r1) = GetSchemaOrCreate key (counted key (returning int16Schema)) r
      in (int8Schema, r1))"

section \<open>Configuration lookup\<close>

text \<open>A call that panics is \<open>Panic\<close>; one that returns is \<open>Return\<close>.\<close>

datatype 'a result = Panic | Return 'a

subsection \<open>The values \<open>reflect\<close> sees\<close>

text \<open>\<open>GetOrDefault\<close> walks the configuration with the \<open>reflect\<close> package of the Go
  library. The model covers values of the kinds string, bool, int (64 bits, as
  \<open>time.Duration\<close>), uint (64 bits), slice of strings, pointer and struct; named types are
  identified with their underlying type, struct types by their name. A struct value
  carries its fields in declaration order, each with what \<open>reflect.StructField\<close> reports:
  whether the field is exported (\<open>PkgPath == ""\<close>), whether it is embedded
  (\<open>Anonymous\<close>), and the value of its \<open>toml\<close> tag.\<close>

datatype gtype = TString | TBool | TInt | TUint | TStrings | TPtr gtype | TStruct string

datatype gvalue =
    GString string
  | GBool bool
  | GInt "64 word"
  | GUint "64 word"
  | GStrings "string list option"
  | GPtr gtype "gvalue option"
  | GStruct string "structField list"
and structField =
  StructField (exported : bool) (Anonymous : bool) (toml : string) (fieldValue : gvalue)

fun typeOf :: "gvalue \<Rightarrow> gtype" where
  "typeOf (GString s) = TString"
| "typeOf (GBool b) = TBool"
| "typeOf (GInt i) = TInt"
| "typeOf (GUint u) = TUint"
| "typeOf (GStrings l) = TStrings"
| "typeOf (GPtr t p) = TPtr t"
| "typeOf (GStruct n fs) = TStruct n"

text \<open>\<open>reflect.Value.IsZero\<close>: a struct is zero when all its fields are.\<close>

fun IsZero :: "gvalue \<Rightarrow> bool"
and allZero :: "structField list \<Rightarrow> bool" where
  "IsZero (GString s) = (s = [])"
| "IsZero (GBool b) = (\<not> b)"
| "IsZero (GInt i) = (i = 0)"
| "IsZero (GUint u) = (u = 0)"
| "IsZero (GStrings l) = (l = None)"
| "IsZero (GPtr t p) = (p = None)"
| "IsZero (GStruct n fs) = allZero fs"
| "allZero [] = True"
| "allZero (f # fs) = (case f of StructField e a t v \<Rightarrow> IsZero v \<and> allZero fs)"

text \<open>\<open>v.Kind() == reflect.Ptr && v.IsNil()\<close>.\<close>

fun isNilPtr :: "gvalue \<Rightarrow> bool" where
  "isNilPtr (GPtr t p) = (p = None)"
| "isNilPtr _ = False"

text \<open>The UTF-8 encoding of a code point, and Go's conversion of an integer to a string:
  the encoding of the code point, or of U+FFFD when the integer is not a valid one.\<close>

definition utf8 :: "nat \<Rightarrow> string" where
  "utf8 r =
     (if r < 128 then [char_of r]
      else if r < 2048 then [char_of (192 + r div 64), char_of (128 + r mod 64)]
      else if r < 65536 then
        [char_of (224 + r div 4096), char_of (128 + (r div 64) mod 64), char_of (128 + r mod 64)]
      else
        [char_of (240 + r div 262144), char_of (128 + (r div 4096) mod 64),
         char_of (128 + (r div 64) mod 64), char_of (128 + r mod 64)])"

definition runeString :: "int \<Rightarrow> string" where
  "runeString x =
     (if 0 \<le> x \<and> x \<le> 1114111 \<and> \<not> (55296 \<le> x \<and> x \<le> 57343) then utf8 (nat x)
      else utf8 65533)"

text \<open>\<open>reflect.Value.Convert\<close>, which panics (\<open>None\<close>) when Go's conversion rules do not
  allow the conversion: a string converts to string types only, a bool to bool types, an
  integer to the integer types (the bits are kept) and to string types (as a code point),
  a slice, pointer or struct to its own type.\<close>

fun Convert :: "gvalue \<Rightarrow> gtype \<Rightarrow> gvalue option" where
  "Convert (GString s) t = (if t = TString then Some (GString s) else None)"
| "Convert (GBool b) t = (if t = TBool then Some (GBool b) else None)"
| "Convert (GInt i) t =
     (if t = TInt then Some (GInt i)
      else if t = TUint then Some (GUint i)
      else if t = TString then Some (GString (runeString (sint i)))
      else None)"
| "Convert (GUint u) t =
     (if t = TInt then Some (GInt u)
      else if t = TUint then Some (GUint u)
      else if t = TString then Some (GString (runeString (uint u)))
      else None)"
| "Convert (GStrings l) t = (if t = TStrings then Some (GStrings l) else None)"
| "Convert (GPtr t' p) t = (if t = TPtr t' then Some (GPtr t' p) else None)"
| "Convert (GStruct n fs) t = (if t = TStruct n then Some (GStruct n fs) else None)"

subsection \<open>Strings\<close>

text \<open>\<open>strings.ToUpper\<close> on the bytes of an ASCII string: the letters a to z are mapped to
  A to Z. Bytes from 128 on, which Go decodes as UTF-8, are outside the model and left as
  they are.\<close>

definition toUpperByte :: "char \<Rightarrow> char" where
  "toUpperByte c =
     (if 97 \<le> (of_char c :: nat) \<and> (of_char c :: nat) \<le> 122 then char_of (of_char c - 32 :: nat)
      else c)"

definition ToUpper :: "string \<Rightarrow> string" where
  "ToUpper s = map toUpperByte s"

text \<open>\<open>strings.ReplaceAll(s, old, new)\<close> for a non-empty \<open>old\<close>: the non-overlapping
  instances of \<open>old\<close> are replaced from the left. (With an empty \<open>old\<close>, which the code
  never passes, Go inserts \<open>new\<close> around every character; the model returns \<open>s\<close>.)\<close>

function ReplaceAll :: "string \<Rightarrow> string \<Rightarrow> string \<Rightarrow> string" where
  "ReplaceAll s old new =
     (if s = [] \<or> old = [] then s
      else if take (length old) s = old then new @ ReplaceAll (drop (length old) s) old new
      else hd s # ReplaceAll (tl s) old new)"
  by pat_completeness auto
termination
  by (relation "measure (\<lambda>(s, old, new). length s)") (auto simp: Suc_le_eq)

declare ReplaceAll.simps [simp del]

text \<open>\<open>strings.Split(s, sep)\<close> for a one-byte separator; the result is never empty.\<close>

fun Split :: "string \<Rightarrow> char \<Rightarrow> string list" where
  "Split [] sep = [[]]"
| "Split (c # cs) sep =
     (if c = sep then [] # Split cs sep
      else (case Split cs sep of
              [] \<Rightarrow> [[c]]
            | p # ps \<Rightarrow> (c # p) # ps))"

subsection \<open>\<open>findEnvProperty\<close>, \<open>findProperty\<close> and \<open>GetOrDefault\<close>\<close>

definition envVarName :: "string \<Rightarrow> string" where
  "envVarName canonicalProperty =
     (let envVarName = ToUpper canonicalProperty;
          envVarName = ReplaceAll envVarName ''_'' ''__'';
          envVarName = ReplaceAll envVarName ''.'' ''_''
      in envVarName)"

text \<open>\<open>findEnvProperty\<close>. The process environment is a map from names to values
  (\<open>os.LookupEnv\<close>). The pair \<open>(V, bool)\<close> the function returns is modelled as an option:
  \<open>None\<close> is \<open>(zero, false)\<close>. \<open>Convert\<close> is called on every value found, before the
  zero test.\<close>

definition findEnvProperty ::
  "(string \<rightharpoonup> string) \<Rightarrow> string \<Rightarrow> gvalue \<Rightarrow> gvalue option result" where
  "findEnvProperty env canonicalProperty defaultValue' =
     (let t = typeOf defaultValue' in
      case env (envVarName canonicalProperty) of
        Some val \<Rightarrow>
          (case Convert (GString val) t of
             None \<Rightarrow> Panic
           | Some cv \<Rightarrow>
               if \<not> IsZero cv \<and> \<not> isNilPtr cv then Return (Some cv) else Return None)
      | None \<Rightarrow> Return None)"

text \<open>The loop of \<open>findProperty\<close> over the fields of a struct: an unexported field that is
  not embedded is skipped; the first other field whose \<open>toml\<close> tag equals the property is
  returned, together with whether the value is read-only for \<open>reflect\<close> (it was reached
  through an unexported embedded field).\<close>

fun findField :: "structField list \<Rightarrow> string \<Rightarrow> (gvalue \<times> bool) option" where
  "findField [] property = None"
| "findField (f # fs) property =
     (if \<not> exported f \<and> \<not> Anonymous f then findField fs property
      else if toml f = property then Some (fieldValue f, \<not> exported f)
      else findField fs property)"

text \<open>\<open>findProperty\<close>: \<open>NumField\<close> panics on a value that is not a struct.\<close>

fun findProperty :: "gvalue \<Rightarrow> string \<Rightarrow> (gvalue \<times> bool) option result" where
  "findProperty (GStruct n fs) property = Return (findField fs property)"
| "findProperty _ property = Panic"

text \<open>The loop of \<open>GetOrDefault\<close> over the segments of the key: \<open>Return None\<close> is the early
  \<open>return defaultValue\<close>.\<close>

fun walk :: "gvalue \<times> bool \<Rightarrow> string list \<Rightarrow> (gvalue \<times> bool) option result" where
  "walk element [] = Return (Some element)"
| "walk element (property # properties) =
     (case findProperty (fst element) property of
        Panic \<Rightarrow> Panic
      | Return None \<Rightarrow> Return None
      | Return (Some e) \<Rightarrow> walk e properties)"

text \<open>\<open>GetOrDefault\<close>. \<open>Interface()\<close> panics on a read-only value.\<close>

definition GetOrDefault ::
  "gvalue \<Rightarrow> (string \<rightharpoonup> string) \<Rightarrow> string \<Rightarrow> gvalue \<Rightarrow> gvalue result" where
  "GetOrDefault config env canonicalProperty defaultValue' =
     (case findEnvProperty env canonicalProperty defaultValue' of
        Panic \<Rightarrow> Panic
      | Return (Some envValue) \<Rightarrow> Return envValue
      | Return None \<Rightarrow>
          (case walk (config, False) (Split canonicalProperty CHR ''.'') of
             Panic \<Rightarrow> Panic
           | Return None \<Rightarrow> Return defaultValue'
           | Return (Some (element, readOnly)) \<Rightarrow>
               if \<not> IsZero element \<and> \<not> isNilPtr element then
                 (case Convert element (typeOf defaultValue') of
                    None \<Rightarrow> Panic
                  | Some cv \<Rightarrow> if readOnly then Panic else Return cv)
               else Return defaultValue'))"

text \<open>The environment variable name as the specification words it: every character of
  the key is upper-cased, an underscore of the key becomes two underscores and a dot
  becomes one underscore.\<close>

definition specEnvVarName :: "string \<Rightarrow> string" where
  "specEnvVarName key =
     concat (map (\<lambda>c. if c = CHR ''_'' then ''__''
                      else if c = CHR ''.'' then ''_''
                      else [toUpperByte c]) key)"

subsection \<open>The configuration document\<close>

text \<open>The \<open>Config\<close> struct and the structs it nests, as \<open>reflect\<close> sees a value of it: all
  fields are exported, none is embedded, and each carries the \<open>toml\<close> tag of its
  declaration. \<open>Config\<close> takes the \<open>PostgreSQLConfig\<close> value; the other sections are at
  their zero values.\<close>

definition tagged :: "string \<Rightarrow> gvalue \<Rightarrow> structField" where
  "tagged tag v = StructField True False tag v"

definition PostgreSQLConfig :: "string \<Rightarrow> string \<Rightarrow> string \<Rightarrow> gvalue" where
  "PostgreSQLConfig connection password publication =
     GStruct ''PostgreSQLConfig''
       [tagged ''connection'' (GString connection),
        tagged ''password'' (GString password),
        tagged ''publication'' (GString publication)]"

definition zeroNatsConfig :: gvalue where
  "zeroNatsConfig =
     GStruct ''NatsConfig''
       [tagged ''address'' (GString []),
        tagged ''authorization'' (GString []),
        tagged ''userinfo''
          (GStruct ''NatsUserInfoConfig''
             [tagged ''username'' (GString []), tagged ''password'' (GString [])]),
        tagged ''credentials''
          (GStruct ''NatsCredentialsConfig''
             [tagged ''certificate'' (GString []), tagged ''seeds'' (GStrings None)]),
        tagged ''jwt''
          (GStruct ''NatsJWTConfig''
             [tagged ''jwt'' (GString []), tagged ''seed'' (GString [])])]"

definition zeroKafkaConfig :: gvalue where
  "zeroKafkaConfig =
     GStruct ''KafkaConfig''
       [tagged ''brokers'' (GStrings None),
        tagged ''idempotent'' (GBool False),
        tagged ''sasl''
          (GStruct ''KafkaSaslConfig''
             [tagged ''user'' (GBool False), tagged ''user'' (GString []),
              tagged ''password'' (GString []), tagged ''mechanism'' (GString [])]),
        tagged ''tls''
          (GStruct ''KafkaTLSConfig''
             [tagged ''enabled'' (GBool False), tagged ''skipverify'' (GBool False),
              tagged ''clientauth'' (GInt 0)])]"

definition zeroSinkConfig :: gvalue where
  "zeroSinkConfig =
     GStruct ''SinkConfig''
       [tagged ''type'' (GString []),
        tagged ''nats'' zeroNatsConfig,
        tagged ''kafka'' zeroKafkaConfig]"

definition zeroTopicConfig :: gvalue where
  "zeroTopicConfig =
     GStruct ''TopicConfig''
       [tagged ''namingstrategy''
          (GStruct ''TopicNamingStrategyConfig'' [tagged ''type'' (GString [])]),
        tagged ''prefix'' (GString [])]"

definition zeroTimescaleDBConfig :: gvalue where
  "zeroTimescaleDBConfig =
     GStruct ''TimescaleDBConfig''
       [tagged ''hypertables''
          (GStruct ''TimescaleHypertablesConfig''
             [tagged ''excludes'' (GStrings None), tagged ''includes'' (GStrings None)]),
        tagged ''events''
          (GStruct ''TimescaleEventsConfig''
             [tagged ''read'' (GBool False), tagged ''insert'' (GBool False),
              tagged ''update'' (GBool False), tagged ''delete'' (GBool False),
              tagged ''truncate'' (GBool False), tagged ''compression'' (GBool False),
              tagged ''decompression'' (GBool False)])]"

definition Config :: "gvalue \<Rightarrow> gvalue" where
  "Config postgresql =
     GStruct ''Config''
       [tagged ''postgresql'' postgresql,
        tagged ''sink'' zeroSinkConfig,
        tagged ''topic'' zeroTopicConfig,
        tagged ''timescaledb'' zeroTimescaleDBConfig]"

text \<open>\<open>&configuring.Config{}\<close>.\<close>

definition zeroConfig :: gvalue where
  "zeroConfig = Config (PostgreSQLConfig [] [] [])"

section \<open>Transaction resolver factory\<close>

text \<open>What \<open>NewTransactionResolver\<close> returns: the result of
  \<open>newTransactionTracker(timeout, maxSize, \<dots>)\<close> or of
  \<open>newLogicalReplicationResolver(\<dots>)\<close>. The two constructors are outside the available
  sources; the value records which one was called and with which window settings.\<close>

datatype handler =
    newTransactionTracker "64 word" "64 word"
  | newLogicalReplicationResolver

text \<open>\<open>time.Second\<close>, in nanoseconds.\<close>

definition Second :: "64 word" where
  "Second = 1000000000"

text \<open>\<open>NewTransactionResolver\<close>. The three settings are read in the order of the code; a
  value that is not of the type of its default fails the type assertion of \<open>GetOrDefault\<close>.
  The multiplication of the timeout is in 64 bits.\<close>

definition NewTransactionResolver :: "gvalue \<Rightarrow> (string \<rightharpoonup> string) \<Rightarrow> handler result" where
  "NewTransactionResolver config env =
     (case GetOrDefault config env ''postgresql.transaction.window.enabled'' (GBool True) of
        Return (GBool enabled) \<Rightarrow>
          (case GetOrDefault config env ''postgresql.transaction.window.timeout'' (GInt 60) of
             Return (GInt d) \<Rightarrow>
               (let timeout = d * Second in
                case GetOrDefault config env ''postgresql.transaction.window.maxsize''
                       (GUint 10000) of
                  Return (GUint maxSize) \<Rightarrow>
                    if enabled \<and> maxSize > 0 then Return (newTransactionTracker timeout maxSize)
                    else Return newLogicalReplicationResolver
                | _ \<Rightarrow> Panic)
           | _ \<Rightarrow> Panic)
      | _ \<Rightarrow> Panic)"

text \<open>Concrete values used in worked examples: a configuration document that has the
  transaction window section, with the given values for \<open>enabled\<close>, \<open>timeout\<close> and
  \<open>maxsize\<close>.\<close>

definition windowConfig :: "bool \<Rightarrow> 64 word \<Rightarrow> 64 word \<Rightarrow> gvalue" where
  "windowConfig enabled timeout maxSize =
     GStruct ''Config''
       [tagged ''postgresql''
          (GStruct ''PostgreSQLConfig''
             [tagged ''connection'' (GString ''host=db''),
              tagged ''transaction''
                (GStruct ''TransactionConfig''
                   [tagged ''window''
                      (GStruct ''TransactionWindowConfig''
                         [tagged ''enabled'' (GBool enabled),
                          tagged ''timeout'' (GInt timeout),
                          tagged ''maxsize'' (GUint maxSize)])])])]"

definition connectionEnv :: "string \<Rightarrow> (string \<rightharpoonup> string)" where
  "connectionEnv val = [''POSTGRESQL_CONNECTION'' \<mapsto> val]"

definition windowEnabledEnv :: "string \<Rightarrow> (string \<rightharpoonup> string)" where
  "windowEnabledEnv val = [''POSTGRESQL_TRANSACTION_WINDOW_ENABLED'' \<mapsto> val]"

definition eventsReadEnv :: "string \<Rightarrow> (string \<rightharpoonup> string)" where
  "eventsReadEnv val = [''TIMESCALEDB_EVENTS_READ'' \<mapsto> val]"

section \<open>Command line entry point\<close>

text \<open>The package variables the flags are bound to.\<close>

record globals =
  configurationFile :: string
  verbose :: bool
  debug :: bool
  withCaller :: bool

definition initialGlobals :: globals where
  "initialGlobals = \<lparr>configurationFile = [], verbose = False, debug = False, withCaller = False\<rparr>"

text \<open>One occurrence of a flag on the command line, with the value it carries
  (\<open>--debug\<close> alone carries true, \<open>--debug=false\<close> carries false): \<open>--config\<close>/\<open>-c\<close>,
  \<open>--verbose\<close>, \<open>--caller\<close> and \<open>--debug\<close>/\<open>-d\<close>. The flag library stores the value of
  each occurrence into the flag's \<open>Destination\<close>, in command line order. The destinations
  are those of the flag declarations in \<open>main\<close>: the debug flag's is \<open>&withCaller\<close>.\<close>

datatype flag = ConfigFlag string | VerboseFlag bool | CallerFlag bool | DebugFlag bool

fun setFlag :: "flag \<Rightarrow> globals \<Rightarrow> globals" where
  "setFlag (ConfigFlag file) g = g\<lparr>configurationFile := file\<rparr>"
| "setFlag (VerboseFlag b) g = g\<lparr>verbose := b\<rparr>"
| "setFlag (CallerFlag b) g = g\<lparr>withCaller := b\<rparr>"
| "setFlag (DebugFlag b) g = g\<lparr>withCaller := b\<rparr>"

fun parseFlags :: "flag list \<Rightarrow> globals \<Rightarrow> globals" where
  "parseFlags [] g = g"
| "parseFlags (f # fs) g = parseFlags fs (setFlag f g)"

fun writesWithCaller :: "flag \<Rightarrow> bool" where
  "writesWithCaller (CallerFlag b) = True"
| "writesWithCaller (DebugFlag b) = True"
| "writesWithCaller _ = False"

text \<open>The variables of the \<open>logging\<close> package that \<open>start\<close> sets.\<close>

record logging =
  WithCaller :: bool
  WithVerbose :: bool
  WithDebug :: bool

text \<open>What \<open>start\<close> calls outside the program: opening, reading and decoding the
  configuration file, the process environment, and the streamer. \<open>doneAwait\<close> sums up the
  shutdown, which runs concurrently: the signal handler's \<open>streamer.Stop\<close> failed (the
  handler exits the process with status 1), waiting failed, or the streamer stopped.\<close>

datatype shutdown = StopFailed error | AwaitFailed error | Stopped

record ('f, 's) system =
  osOpen :: "string \<Rightarrow> error + 'f"
  ioReadAll :: "'f \<Rightarrow> error + 8 word list"
  tomlUnmarshal :: "8 word list \<Rightarrow> error + gvalue"
  environ :: "string \<rightharpoonup> string"
  NewStreamer :: "gvalue \<Rightarrow> error + 's"
  streamerStart :: "'s \<Rightarrow> error option"
  doneAwait :: "'s \<Rightarrow> shutdown"

text \<open>How \<open>start\<close> ends: it panics, the process exits from the signal handler, or it
  returns an error or nil.\<close>

datatype startResult = StartPanic | OsExit nat | StartReturn "error option"

text \<open>The message of an error, as \<open>%v\<close> prints it.\<close>

fun errorString :: "error \<Rightarrow> string" where
  "errorString (Err msg) = msg"
| "errorString (ExitError msg code) = msg"
| "errorString (Wrapped err) = errorString err"

text \<open>Modelled from the spec: \<open>supporting.AdaptError\<close> is outside the available sources;
  the specification gives exit code 10 to a fatal runtime error.\<close>

definition AdaptError :: "error \<Rightarrow> nat \<Rightarrow> error" where
  "AdaptError err code = ExitError (errorString err) code"

text \<open>The block of \<open>start\<close> that loads the configuration: the zero \<open>Config\<close> when no file
  is named, otherwise the decoded file, or the exit error of the step that failed.\<close>

definition loadConfiguration :: "('f, 's) system \<Rightarrow> globals \<Rightarrow> error + gvalue" where
  "loadConfiguration sys g =
     (if configurationFile g \<noteq> [] then
        (case osOpen sys (configurationFile g) of
           Inl err \<Rightarrow>
             Inl (ExitError (''Configuration file couldn't be opened: '' @ errorString err
                              @ [CHR 0x0A]) 3)
         | Inr f \<Rightarrow>
             (case ioReadAll sys f of
                Inl err \<Rightarrow>
                  Inl (ExitError (''Configuration file couldn't be read: '' @ errorString err
                                   @ [CHR 0x0A]) 4)
              | Inr b \<Rightarrow>
                  (case tomlUnmarshal sys b of
                     Inl err \<Rightarrow>
                       Inl (ExitError (''Configuration file couldn't be decoded: ''
                                        @ errorString err @ [CHR 0x0A]) 5)
                   | Inr config \<Rightarrow> Inr config)))
      else Inr zeroConfig)"

definition start :: "('f, 's) system \<Rightarrow> globals \<Rightarrow> logging \<times> startResult" where
  "start sys g =
     (\<lparr>WithCaller = withCaller g, WithVerbose = verbose g, WithDebug = debug g\<rparr>,
      case loadConfiguration sys g of
        Inl err \<Rightarrow> StartReturn (Some err)
      | Inr config \<Rightarrow>
          (case GetOrDefault config (environ sys) ''postgresql.connection'' (GString []) of
             Panic \<Rightarrow> StartPanic
           | Return connection \<Rightarrow>
               if connection = GString [] then
                 StartReturn (Some (ExitError ''PostgreSQL connection string required'' 6))
               else
                 (case NewStreamer sys config of
                    Inl err \<Rightarrow> StartReturn (Some err)
                  | Inr streamer \<Rightarrow>
                      (case streamerStart sys streamer of
                         Some err \<Rightarrow> StartReturn (Some err)
                       | None \<Rightarrow>
                           (case doneAwait sys streamer of
                              StopFailed err \<Rightarrow> OsExit 1
                            | AwaitFailed err \<Rightarrow> StartReturn (Some (AdaptError err 10))
                            | Stopped \<Rightarrow> StartReturn None)))))"

text \<open>\<open>main\<close>: the flags are parsed into the package variables, then \<open>start\<close> runs.\<close>

definition main :: "('f, 's) system \<Rightarrow> flag list \<Rightarrow> logging \<times> startResult" where
  "main sys args = start sys (parseFlags args initialGlobals)"

text \<open>Concrete values used in worked examples: systems whose configuration file cannot
  be opened, read or decoded, and one whose file decodes to a given configuration.\<close>

definition systemWith ::
  "(string \<Rightarrow> error + unit) \<Rightarrow> (unit \<Rightarrow> error + 8 word list) \<Rightarrow> (8 word list \<Rightarrow> error + gvalue)
     \<Rightarrow> (unit, unit) system" where
  "systemWith openFile readFile decode =
     \<lparr>osOpen = openFile, ioReadAll = readFile, tomlUnmarshal = decode, environ = Map.empty,
      NewStreamer = (\<lambda>config. Inr ()), streamerStart = (\<lambda>s. None),
      doneAwait = (\<lambda>s. Stopped)\<rparr>"

definition unopenable :: "(unit, unit) system" where
  "unopenable =
     systemWith (\<lambda>file. Inl (Err ''no such file'')) (\<lambda>f. Inr []) (\<lambda>b. Inr zeroConfig)"

definition unreadable :: "(unit, unit) system" where
  "unreadable =
     systemWith (\<lambda>file. Inr ()) (\<lambda>f. Inl (Err ''read error'')) (\<lambda>b. Inr zeroConfig)"

definition undecodable :: "(unit, unit) system" where
  "undecodable =
     systemWith (\<lambda>file. Inr ()) (\<lambda>f. Inr []) (\<lambda>b. Inl (Err ''bad toml''))"

definition decodesTo :: "gvalue \<Rightarrow> (unit, unit) system" where
  "decodesTo config = systemWith (\<lambda>file. Inr ()) (\<lambda>f. Inr []) (\<lambda>b. Inr config)"

definition fileGlobals :: globals where
  "fileGlobals = parseFlags [ConfigFlag ''config.toml''] initialGlobals"

section \<open>Properties of the replication context\<close>

text \<open>
  Claim C1. For every XLogData message and every optional processed LSN,
  \<open>AcknowledgeProcessed\<close> sets the in-memory \<open>lastProcessedLSN\<close> to the maximum of its
  current value and the processed LSN (or, when that is nil, \<open>WALStart + len(WALData)\<close>,
  computed in 64-bit unsigned arithmetic as the code does). When the state store answers
  \<open>Get\<close> and \<open>Set\<close> without error, the call returns no error and the store then holds,
  under the replication slot's name, an offset whose LSN is the updated in-memory value and
  whose timestamp is the message's server time. When \<open>Get\<close> fails, that error is returned
  and the store is left as it was. In every case a persisted LSN that was not ahead of the
  in-memory value before the call is not ahead of it afterwards.
\<close>

theorem AcknowledgeProcessed_advances_and_persists:
  fixes xld :: XLogData and processedLSN :: "LSN option" and rc :: replicationContext
  defines "new \<equiv> (case processedLSN of Some p \<Rightarrow> p
                   | None \<Rightarrow> WALStart xld + of_nat (length (WALData xld)))"
  defines "res \<equiv> AcknowledgeProcessed xld processedLSN rc"
  shows "lastProcessedLSN (snd res) = max (lastProcessedLSN rc) new
       \<and> replicationSlotName (snd res) = replicationSlotName rc
       \<and> (getError (stateStorageManager rc) = None \<and> setError (stateStorageManager rc) = None \<longrightarrow>
            fst res = None \<and>
            (\<exists>off. persistedOffset (snd res) = Some off
                 \<and> LSN off = lastProcessedLSN (snd res)
                 \<and> Timestamp off = ServerTime xld))
       \<and> (\<forall>e. getError (stateStorageManager rc) = Some e \<longrightarrow>
            fst res = Some e \<and> stateStorageManager (snd res) = stateStorageManager rc)
       \<and> ((\<forall>off. persistedOffset rc = Some off \<longrightarrow> LSN off \<le> lastProcessedLSN rc) \<longrightarrow>
            (\<forall>off. persistedOffset (snd res) = Some off \<longrightarrow>
                   LSN off \<le> lastProcessedLSN (snd res)))"
  unfolding res_def new_def
  apply (intro conjI)
  subgoal
    by (auto simp: AcknowledgeProcessed_def Let_def Offset_def Get_def Set_def newOffset_def
          max_def split: option.splits sum.splits prod.splits)
  subgoal
    by (auto simp: AcknowledgeProcessed_def Let_def Offset_def Get_def Set_def newOffset_def
          split: option.splits sum.splits prod.splits)
  subgoal
    by (auto simp: AcknowledgeProcessed_def Let_def Offset_def Get_def Set_def newOffset_def
          persistedOffset_def split: option.splits sum.splits prod.splits)
  subgoal
    by (auto simp: AcknowledgeProcessed_def Let_def Offset_def Get_def
          split: option.splits sum.splits prod.splits)
  subgoal
    by (auto simp: AcknowledgeProcessed_def Let_def Offset_def Get_def Set_def newOffset_def
          persistedOffset_def split: option.splits sum.splits prod.splits if_splits)
  done

theorem AcknowledgeProcessed_advances_and_persists_witness:
  "getError (stateStorageManager exampleContext) = None
   \<and> setError (stateStorageManager exampleContext) = None
   \<and> persistedOffset exampleContext = None
   \<and> lastProcessedLSN exampleContext = 5
   \<and> lastProcessedLSN (snd (AcknowledgeProcessed exampleXLogData None exampleContext)) = 19
   \<and> fst (AcknowledgeProcessed exampleXLogData None exampleContext) = None
   \<and> (\<exists>off. persistedOffset (snd (AcknowledgeProcessed exampleXLogData None exampleContext))
               = Some off
          \<and> LSN off = 19 \<and> Timestamp off = 1000)"
proof -
  have none: "persistedOffset exampleContext = None"
    by (simp add: persistedOffset_def exampleContext_def exampleManager_def)
  have ctx: "getError (stateStorageManager exampleContext) = None"
    "setError (stateStorageManager exampleContext) = None"
    "lastProcessedLSN exampleContext = 5"
    by (simp_all add: exampleContext_def exampleManager_def)
  have xld: "WALStart exampleXLogData + of_nat (length (WALData exampleXLogData)) = 19"
    "ServerTime exampleXLogData = 1000"
    by (simp_all add: exampleXLogData_def)
  show ?thesis
    using AcknowledgeProcessed_advances_and_persists [of exampleXLogData None exampleContext]
    by (auto simp: none ctx xld)
qed

lemma call_lastProcessed:
  "\<not> isSetPositionLSNs c \<Longrightarrow> lastProcessedLSN rc \<le> lastProcessedLSN (call c rc)"
  by (cases c)
     (auto simp: SetLastTransactionId_def SetLastBeginLSN_def SetLastCommitLSN_def
        AcknowledgeReceived_def AcknowledgeProcessed_def Let_def
        split: option.splits sum.splits prod.splits)

lemma execution_lastProcessed:
  "(\<forall>c \<in> set cs. \<not> isSetPositionLSNs c) \<Longrightarrow>
     lastProcessedLSN rc \<le> lastProcessedLSN (execution cs rc)"
proof (induction cs arbitrary: rc)
  case Nil
  then show ?case by simp
next
  case (Cons c cs)
  have "lastProcessedLSN rc \<le> lastProcessedLSN (call c rc)"
    using Cons.prems by (simp add: call_lastProcessed)
  also have "\<dots> \<le> lastProcessedLSN (execution cs (call c rc))"
    using Cons by simp
  finally show ?case by simp
qed

text \<open>
  Claim C2, as stated: every operation that writes \<open>lastProcessedLSN\<close>, \<open>SetPositionLSNs\<close>
  included, leaves it greater than or equal to its previous value. \<open>SetPositionLSNs\<close>
  assigns its argument unconditionally: from a context whose \<open>lastProcessedLSN\<close> is 5,
  \<open>SetPositionLSNs(7, 3)\<close> leaves 3.
\<close>

theorem lastProcessed_nondecreasing_counterexample:
  "\<not> lastProcessedLSN exampleContext
       \<le> lastProcessedLSN (execution [CallSetPositionLSNs 7 3] exampleContext)"
  by (simp add: exampleContext_def SetPositionLSNs_def)

text \<open>
  Claim C2, amended. In every execution that does not call \<open>SetPositionLSNs\<close>,
  \<open>lastProcessedLSN\<close> is non-decreasing (\<open>AcknowledgeProcessed\<close>, the only other writer,
  only ever raises it); \<open>SetPositionLSNs\<close> overwrites \<open>lastProcessedLSN\<close> with its
  \<open>processedLSN\<close> argument, so it keeps the value non-decreasing exactly when that argument
  is not below the current value.
\<close>

theorem lastProcessed_nondecreasing_without_SetPositionLSNs:
  "((\<forall>c \<in> set cs. \<not> isSetPositionLSNs c) \<longrightarrow>
      lastProcessedLSN rc \<le> lastProcessedLSN (execution cs rc))
   \<and> lastProcessedLSN (SetPositionLSNs receivedLSN processedLSN rc) = processedLSN
   \<and> (lastProcessedLSN rc \<le> lastProcessedLSN (SetPositionLSNs receivedLSN processedLSN rc)
        \<longleftrightarrow> lastProcessedLSN rc \<le> processedLSN)"
  by (simp add: execution_lastProcessed SetPositionLSNs_def)

theorem lastProcessed_nondecreasing_without_SetPositionLSNs_witness:
  "list_all (\<lambda>c. \<not> isSetPositionLSNs c)
     [CallAcknowledgeReceived exampleXLogData,
      CallAcknowledgeProcessed exampleXLogData (Some 2),
      CallAcknowledgeProcessed exampleXLogData None]
   \<and> lastProcessedLSN exampleContext
       \<le> lastProcessedLSN
           (execution [CallAcknowledgeReceived exampleXLogData,
                       CallAcknowledgeProcessed exampleXLogData (Some 2),
                       CallAcknowledgeProcessed exampleXLogData None] exampleContext)"
  using lastProcessed_nondecreasing_without_SetPositionLSNs
    [of "[CallAcknowledgeReceived exampleXLogData,
          CallAcknowledgeProcessed exampleXLogData (Some 2),
          CallAcknowledgeProcessed exampleXLogData None]" exampleContext 0 0]
  by simp

section \<open>Properties of the schema builder and the registry\<close>

lemma Build_NewSchemaBuilder:
  "Build ParseFloat (NewSchemaBuilder INT8) = Some [FieldNameType \<mapsto> VType INT8]"
  by (simp add: NewSchemaBuilder_def commonEntries_def)

lemma Build_Clone_NewSchemaBuilder:
  "Build ParseFloat (Clone (NewSchemaBuilder INT8))
     = Some [FieldNameType \<mapsto> VType INT8, FieldNameIndex \<mapsto> VInt 0]"
  by (simp add: NewSchemaBuilder_def Clone_def commonEntries_def)

lemma Clone_resets_index:
  "Clone s = SchemaBuilderImpl (fieldName s) (schemaName s) (schemaType s) (version s)
     (optional s) (defaultValue s) (documentation s) 0 (parameters s)
     (schemaBuilderImpl.fields s)
     (keySchemaBuilder s) (valueSchemaBuilder s)
   \<and> (index s = 0 \<longrightarrow> Clone s = s)"
  by (cases s) (simp add: Clone_def)

text \<open>
  Claim C3 says that building a clone of a builder yields the same schema struct as
  building the builder. For the builder \<open>NewSchemaBuilder(INT8)\<close>, whose index is \<open>-1\<close>,
  \<open>Build\<close> returns the struct with the type entry only, while \<open>Build\<close> of its clone,
  whose index is 0, also holds the entry \<open>index = 0\<close>: the two structs differ.
\<close>

theorem Build_Clone_differs:
  "Build ParseFloat (NewSchemaBuilder INT8) = Some [FieldNameType \<mapsto> VType INT8]
   \<and> Build ParseFloat (Clone (NewSchemaBuilder INT8))
       = Some [FieldNameType \<mapsto> VType INT8, FieldNameIndex \<mapsto> VInt 0]
   \<and> Build ParseFloat (Clone (NewSchemaBuilder INT8)) \<noteq> Build ParseFloat (NewSchemaBuilder INT8)"
proof -
  have "[FieldNameType \<mapsto> VType INT8, FieldNameIndex \<mapsto> VInt 0] FieldNameIndex
          \<noteq> [FieldNameType \<mapsto> VType INT8] FieldNameIndex"
    by (simp add: FieldNameIndex_def FieldNameType_def)
  then have "[FieldNameType \<mapsto> VType INT8, FieldNameIndex \<mapsto> VInt 0]
          \<noteq> [FieldNameType \<mapsto> VType INT8]"
    by metis
  then show ?thesis
    by (simp only: Build_NewSchemaBuilder Build_Clone_NewSchemaBuilder option.inject
          simp_thms)
qed

lemma GetSchemaOrCreate_present:
  "schemaRegistry r key = Some schema \<Longrightarrow> GetSchemaOrCreate key creator r = (schema, r)"
  by (simp add: GetSchemaOrCreate_def)

lemma GetSchemaOrCreate_registers:
  "schemaRegistry (snd (GetSchemaOrCreate key creator r)) key
     = Some (fst (GetSchemaOrCreate key creator r))"
  by (auto simp: GetSchemaOrCreate_def split: option.splits prod.splits)

lemma requests_present:
  "schemaRegistry r key = Some schema \<Longrightarrow>
     requests key creators r = (replicate (length creators) schema, r)"
  by (induction creators) (simp_all add: GetSchemaOrCreate_present)

lemma counted_calls:
  assumes "\<forall>r. creatorCalls (snd (creator r)) key = creatorCalls r key"
  shows "creatorCalls (snd (counted key creator r)) key = Suc (creatorCalls r key)"
  using assms by (simp add: counted_def)

lemma requests_counted:
  assumes "\<forall>creator \<in> set creators. \<forall>r. creatorCalls (snd (creator r)) key = creatorCalls r key"
  shows "creatorCalls (snd (requests key (map (counted key) creators) r)) key
     = creatorCalls r key + (if schemaRegistry r key = None \<and> creators \<noteq> [] then 1 else 0)"
proof (cases creators)
  case Nil
  then show ?thesis by simp
next
  case (Cons c cs)
  show ?thesis
  proof (cases "schemaRegistry r key")
    case None
    have quiet: "\<forall>r. creatorCalls (snd (c r)) key = creatorCalls r key"
      using assms Cons by simp
    obtain s r1 where r1: "GetSchemaOrCreate key (counted key c) r = (s, r1)"
      by (cases "GetSchemaOrCreate key (counted key c) r") blast
    have reg: "schemaRegistry r1 key = Some s"
      using GetSchemaOrCreate_registers [of key "counted key c" r] r1 by simp
    have "creatorCalls r1 key = creatorCalls (snd (counted key c r)) key"
      using r1 None by (auto simp: GetSchemaOrCreate_def split: prod.splits)
    then have c: "creatorCalls r1 key = Suc (creatorCalls r key)"
      using counted_calls [OF quiet] by simp
    show ?thesis using None Cons r1 c requests_present [OF reg]
      by (simp split: prod.splits)
  next
    case (Some a)
    then show ?thesis using requests_present [OF Some] by simp
  qed
qed

text \<open>
  Claim C4, as stated: for every creator function, \<open>GetSchemaOrCreate\<close> invokes the creator
  at most once per name, and later calls return the schema a call stored. The registry's
  lock is re-entrant, so a creator may request the name it is creating. One call for an
  unregistered name with such a creator runs two creators for that name: the outer one and,
  inside it, the inner one, whose INT16 schema is registered first and then replaced by the
  outer creator's INT8 schema.
\<close>

theorem GetSchemaOrCreate_reentrant_counterexample:
  "schemaRegistry emptyCounted ''a'' = None
   \<and> creatorCalls emptyCounted ''a'' = 0
   \<and> fst (GetSchemaOrCreate ''a'' (counted ''a'' (returning int16Schema))
            (emptyCounted\<lparr>creatorCalls := (creatorCalls emptyCounted)(''a'' := 1)\<rparr>))
       = int16Schema
   \<and> creatorCalls
        (snd (GetSchemaOrCreate ''a'' (counted ''a'' (reentrantCreator ''a'')) emptyCounted))
        ''a'' = 2
   \<and> schemaRegistry
        (snd (GetSchemaOrCreate ''a'' (counted ''a'' (reentrantCreator ''a'')) emptyCounted))
        ''a'' = Some int8Schema"
  by (simp add: GetSchemaOrCreate_def counted_def returning_def reentrantCreator_def
        emptyCounted_def)

text \<open>
  Claim C4, amended. For every schema name and creator function: if a schema is registered
  under the name, \<open>GetSchemaOrCreate\<close> returns it and leaves the state exactly as it was,
  whatever the creator would have done; otherwise it runs the creator once on the current
  state and registers the creator's result under the name in the state the creator left,
  replacing what the creator itself may have registered there. A following call with the
  same name and any creator returns that schema and leaves the state unchanged. Provided
  no creator, while it runs, has a creator invoked for the same name again, any number of
  calls for one name invokes a creator for it once if the name was not registered (and
  there is a call), and never otherwise.
\<close>

theorem GetSchemaOrCreate_creator_once_unless_reentrant:
  fixes r :: "'z CountedRegistry_scheme"
  shows
  "(\<forall>schema. schemaRegistry r key = Some schema \<longrightarrow>
        GetSchemaOrCreate key creator r = (schema, r))
   \<and> (schemaRegistry r key = None \<longrightarrow>
        GetSchemaOrCreate key creator r =
          (fst (creator r),
           (snd (creator r))\<lparr>schemaRegistry :=
              (schemaRegistry (snd (creator r)))(key \<mapsto> fst (creator r))\<rparr>))
   \<and> GetSchemaOrCreate key creator' (snd (GetSchemaOrCreate key creator r))
        = GetSchemaOrCreate key creator r
   \<and> ((\<forall>c \<in> set creators. \<forall>r'. creatorCalls (snd (c r')) key = creatorCalls r' key) \<longrightarrow>
        creatorCalls (snd (requests key (map (counted key) creators) r)) key
          = creatorCalls r key
            + (if schemaRegistry r key = None \<and> creators \<noteq> [] then 1 else 0))"
proof (intro conjI)
  show "\<forall>schema. schemaRegistry r key = Some schema \<longrightarrow>
        GetSchemaOrCreate key creator r = (schema, r)"
    by (simp add: GetSchemaOrCreate_present)
  show "schemaRegistry r key = None \<longrightarrow>
        GetSchemaOrCreate key creator r =
          (fst (creator r),
           (snd (creator r))\<lparr>schemaRegistry :=
              (schemaRegistry (snd (creator r)))(key \<mapsto> fst (creator r))\<rparr>)"
    by (simp add: GetSchemaOrCreate_def split: prod.splits)
  show "GetSchemaOrCreate key creator' (snd (GetSchemaOrCreate key creator r))
        = GetSchemaOrCreate key creator r"
    by (simp add: GetSchemaOrCreate_present [OF GetSchemaOrCreate_registers])
  show "(\<forall>c \<in> set creators. \<forall>r'. creatorCalls (snd (c r')) key = creatorCalls r' key) \<longrightarrow>
        creatorCalls (snd (requests key (map (counted key) creators) r)) key
          = creatorCalls r key
            + (if schemaRegistry r key = None \<and> creators \<noteq> [] then 1 else 0)"
    using requests_counted [of creators key r] by blast
qed

theorem GetSchemaOrCreate_creator_once_unless_reentrant_witness:
  "schemaRegistry emptyCounted ''a'' = None
   \<and> (\<forall>r :: CountedRegistry. creatorCalls (snd (returning int8Schema r)) ''a'' = creatorCalls r ''a'')
   \<and> (\<forall>r :: CountedRegistry. creatorCalls (snd (returning int16Schema r)) ''a'' = creatorCalls r ''a'')
   \<and> GetSchemaOrCreate ''a'' (returning int8Schema) emptyCounted
       = (int8Schema, emptyCounted\<lparr>schemaRegistry := [''a'' \<mapsto> int8Schema]\<rparr>)
   \<and> GetSchemaOrCreate ''a'' (returning int16Schema)
        (snd (GetSchemaOrCreate ''a'' (returning int8Schema) emptyCounted))
       = (int8Schema, emptyCounted\<lparr>schemaRegistry := [''a'' \<mapsto> int8Schema]\<rparr>)
   \<and> creatorCalls
         (snd (requests ''a''
                 (map (counted ''a'')
                    [returning int8Schema, returning int16Schema, returning int8Schema])
                 emptyCounted)) ''a'' = 1"
proof -
  note t = GetSchemaOrCreate_creator_once_unless_reentrant
      [of emptyCounted "''a''" "returning int8Schema" "returning int16Schema"
          "[returning int8Schema, returning int16Schema, returning int8Schema]"]
  have e: "schemaRegistry emptyCounted ''a'' = None" "creatorCalls emptyCounted ''a'' = 0"
    by (simp_all add: emptyCounted_def)
  have q: "creatorCalls (snd (returning schema r)) ''a'' = creatorCalls r ''a''"
    for schema and r :: CountedRegistry
    by (simp add: returning_def)
  have first: "GetSchemaOrCreate ''a'' (returning int8Schema) emptyCounted
       = (int8Schema, emptyCounted\<lparr>schemaRegistry := [''a'' \<mapsto> int8Schema]\<rparr>)"
    using t [THEN conjunct2, THEN conjunct1] e
    by (simp add: returning_def emptyCounted_def)
  have second: "GetSchemaOrCreate ''a'' (returning int16Schema)
        (snd (GetSchemaOrCreate ''a'' (returning int8Schema) emptyCounted))
       = (int8Schema, emptyCounted\<lparr>schemaRegistry := [''a'' \<mapsto> int8Schema]\<rparr>)"
    using t [THEN conjunct2, THEN conjunct2, THEN conjunct1] first by simp
  have calls: "creatorCalls
         (snd (requests ''a''
                 (map (counted ''a'')
                    [returning int8Schema, returning int16Schema, returning int8Schema])
                 emptyCounted)) ''a'' = 1"
    using t [THEN conjunct2, THEN conjunct2, THEN conjunct2] e q
    by (simp del: requests.simps)
  show ?thesis
    using e q first second calls by simp
qed

lemma Build_commonEntries:
  "Build ParseFloat s = Some st \<Longrightarrow> \<exists>st0. st = commonEntries ParseFloat s st0"
  by (cases s) (auto simp: Let_def split: Type.splits option.splits)

lemma commonEntries_default:
  assumes "defaultValue s = Some str"
    and "\<forall>ps. parameters s = Some ps \<longrightarrow> ps FieldNameDefault = None"
  shows "commonEntries ParseFloat s st0 FieldNameDefault = Some (coerceDefault ParseFloat str)"
  using assms
  by (auto simp: commonEntries_def Let_def map_add_def split: option.splits)

text \<open>
  Claim C10, as stated: for every builder with a non-nil default value string, \<open>Build\<close>
  emits the coerced string, the default \<open>"1"\<close> as boolean true. \<open>Build\<close> writes the
  parameters after the default entry: a builder with the default \<open>"1"\<close> and a parameter
  stored under the key \<open>FieldNameDefault\<close> emits the parameter's value.
\<close>

theorem Build_default_counterexample:
  "defaultValue (stringWithDefaultParameter ''1'') = Some ''1''
   \<and> emittedDefault rejectFloat (stringWithDefaultParameter ''1'') = Some (VString ''x'')
   \<and> emittedDefault rejectFloat (stringWithDefaultParameter ''1'') \<noteq> Some (VBool True)"
  by (simp add: stringWithDefaultParameter_def emittedDefault_def commonEntries_def)

text \<open>
  Claim C10, amended. For every builder with a non-nil default value string and no
  parameter stored under the key \<open>FieldNameDefault\<close>, whenever \<open>Build\<close> returns (it panics on
  a nil key or value builder), the entry under \<open>FieldNameDefault\<close> is the string coerced in
  a fixed priority order: a boolean if \<open>strconv.ParseBool\<close> accepts it, otherwise a signed
  64-bit integer if \<open>strconv.ParseInt\<close> accepts it, otherwise a 64-bit float if
  \<open>strconv.ParseFloat\<close> accepts it, otherwise the raw string; in particular the default
  \<open>"1"\<close> is emitted as boolean true.
\<close>

theorem Build_coerces_default:
  assumes "defaultValue s = Some str"
    and "Build ParseFloat s = Some st"
    and "\<forall>ps. parameters s = Some ps \<longrightarrow> ps FieldNameDefault = None"
  shows "st FieldNameDefault =
           Some (case ParseBool str of
                   Some v \<Rightarrow> VBool v
                 | None \<Rightarrow>
                     (case ParseInt str of
                        Inr v \<Rightarrow> VInt64 v
                      | Inl e \<Rightarrow>
                          (case ParseFloat str of
                             Some v \<Rightarrow> VFloat64 v
                           | None \<Rightarrow> VString str)))
         \<and> (str = ''1'' \<longrightarrow> st FieldNameDefault = Some (VBool True))"
proof -
  obtain st0 where "st = commonEntries ParseFloat s st0"
    using Build_commonEntries [OF assms(2)] by blast
  then have "st FieldNameDefault = Some (coerceDefault ParseFloat str)"
    using commonEntries_default [OF assms(1) assms(3)] by simp
  then show ?thesis
    by (auto simp: coerceDefault_def ParseBool_def split: option.splits sum.splits)
qed

lemma Build_stringWithDefault_bool:
  "Build rejectFloat (stringWithDefault ''1'')
     = Some [FieldNameType \<mapsto> VType STRING, FieldNameDefault \<mapsto> VBool True]"
  by (simp add: stringWithDefault_def commonEntries_def coerceDefault_def ParseBool_def)

lemma Build_stringWithDefault_int:
  "Build rejectFloat (stringWithDefault ''42'')
     = Some [FieldNameType \<mapsto> VType STRING, FieldNameDefault \<mapsto> VInt64 42]"
  by (simp add: stringWithDefault_def commonEntries_def coerceDefault_def ParseBool_def
        ParseInt_def ParseUint_def isDigit_def maxUint64_def)

lemma Build_stringWithDefault_string:
  "Build rejectFloat (stringWithDefault ''now()'')
     = Some [FieldNameType \<mapsto> VType STRING, FieldNameDefault \<mapsto> VString ''now()'']"
  by (simp add: stringWithDefault_def commonEntries_def coerceDefault_def ParseBool_def
        ParseInt_def ParseUint_def isDigit_def maxUint64_def rejectFloat_def)

theorem Build_coerces_default_witness:
  "defaultValue (stringWithDefault ''1'') = Some ''1''
   \<and> parameters (stringWithDefault ''1'') = None
   \<and> Build rejectFloat (stringWithDefault ''1'')
       = Some [FieldNameType \<mapsto> VType STRING, FieldNameDefault \<mapsto> VBool True]
   \<and> emittedDefault rejectFloat (stringWithDefault ''1'') = Some (VBool True)
   \<and> emittedDefault rejectFloat (stringWithDefault ''42'') = Some (VInt64 42)
   \<and> emittedDefault rejectFloat (stringWithDefault ''now()'') = Some (VString ''now()'')"
proof -
  have p: "defaultValue (stringWithDefault str) = Some str"
    "\<forall>ps. parameters (stringWithDefault str) = Some ps \<longrightarrow> ps FieldNameDefault = None"
    "parameters (stringWithDefault str) = None" for str
    by (simp_all add: stringWithDefault_def)
  have "emittedDefault rejectFloat (stringWithDefault ''1'') = Some (VBool True)"
    using Build_coerces_default [OF p(1) Build_stringWithDefault_bool p(2)]
    by (simp add: emittedDefault_def Build_stringWithDefault_bool)
  moreover have "emittedDefault rejectFloat (stringWithDefault ''42'') = Some (VInt64 42)"
    using Build_coerces_default [OF p(1) Build_stringWithDefault_int p(2)]
    by (simp add: emittedDefault_def Build_stringWithDefault_int)
  moreover have "emittedDefault rejectFloat (stringWithDefault ''now()'') = Some (VString ''now()'')"
    using Build_coerces_default [OF p(1) Build_stringWithDefault_string p(2)]
    by (simp add: emittedDefault_def Build_stringWithDefault_string)
  ultimately show ?thesis
    by (simp add: p Build_stringWithDefault_bool)
qed

section \<open>Properties of the configuration lookup\<close>

lemma ReplaceAll_char:
  "ReplaceAll s [c] new = concat (map (\<lambda>x. if x = c then new else [x]) s)"
proof (induction s)
  case Nil
  then show ?case by (simp add: ReplaceAll.simps)
next
  case (Cons a s)
  then show ?case by (subst ReplaceAll.simps) simp
qed

lemma of_char_toUpperByte:
  "(of_char (toUpperByte c) :: nat) =
     (if 97 \<le> (of_char c :: nat) \<and> (of_char c :: nat) \<le> 122 then of_char c - 32
      else of_char c)"
  by (auto simp: toUpperByte_def)

lemma toUpperByte_underscore: "toUpperByte c = CHR ''_'' \<longleftrightarrow> c = CHR ''_''"
proof -
  have "toUpperByte c = CHR ''_'' \<longleftrightarrow> (of_char (toUpperByte c) :: nat) = of_char CHR ''_''"
    by (simp only: of_char_eq_iff)
  also have "\<dots> \<longleftrightarrow> (of_char c :: nat) = of_char CHR ''_''"
    by (auto simp: of_char_toUpperByte)
  also have "\<dots> \<longleftrightarrow> c = CHR ''_''"
    by (simp only: of_char_eq_iff)
  finally show ?thesis .
qed

lemma toUpperByte_dot: "toUpperByte c = CHR ''.'' \<longleftrightarrow> c = CHR ''.''"
proof -
  have "toUpperByte c = CHR ''.'' \<longleftrightarrow> (of_char (toUpperByte c) :: nat) = of_char CHR ''.''"
    by (simp only: of_char_eq_iff)
  also have "\<dots> \<longleftrightarrow> (of_char c :: nat) = of_char CHR ''.''"
    by (auto simp: of_char_toUpperByte)
  also have "\<dots> \<longleftrightarrow> c = CHR ''.''"
    by (simp only: of_char_eq_iff)
  finally show ?thesis .
qed

lemma envVarName_spec: "envVarName key = specEnvVarName key"
  by (induction key)
     (simp_all add: envVarName_def specEnvVarName_def ToUpper_def ReplaceAll_char
        toUpperByte_underscore toUpperByte_dot)

lemma Convert_type: "Convert v t = Some cv \<Longrightarrow> typeOf cv = t"
  by (cases v) (auto split: if_splits)

lemma Convert_string: "Convert (GString val) t = Some cv \<Longrightarrow> t = TString \<and> cv = GString val"
  by (auto split: if_splits)

lemma findEnvProperty_unset:
  "env (envVarName key) = None \<Longrightarrow> findEnvProperty env key d = Return None"
  by (simp add: findEnvProperty_def)

lemma findEnvProperty_string:
  "typeOf d = TString \<Longrightarrow> env (envVarName key) = Some val \<Longrightarrow>
     findEnvProperty env key d = Return (if val = [] then None else Some (GString val))"
  by (simp add: findEnvProperty_def)

lemma findEnvProperty_other:
  "typeOf d \<noteq> TString \<Longrightarrow> env (envVarName key) = Some val \<Longrightarrow>
     findEnvProperty env key d = Panic"
  by (simp add: findEnvProperty_def)

text \<open>
  Claim C5, as stated: a value found in the environment takes precedence over the value in
  the configuration document. With the variable \<open>POSTGRESQL_CONNECTION\<close> set to the empty
  string and \<open>postgresql.connection\<close> set to \<open>host=db\<close> in the document, \<open>GetOrDefault\<close>
  returns the document's value: \<open>findEnvProperty\<close> reports a zero value as not found.
\<close>

theorem GetOrDefault_environment_counterexample:
  "connectionEnv [] (envVarName ''postgresql.connection'') = Some []
   \<and> GetOrDefault (Config (PostgreSQLConfig ''host=db'' [] [])) (connectionEnv [])
        ''postgresql.connection'' (GString []) = Return (GString ''host=db'')
   \<and> GetOrDefault (Config (PostgreSQLConfig ''host=db'' [] [])) (connectionEnv [])
        ''postgresql.connection'' (GString []) \<noteq> Return (GString [])"
  by code_simp


text \<open>
  Claim C5, amended. For every canonical dotted property key (of ASCII characters),
  \<open>GetOrDefault\<close> consults the environment variable whose name is the key upper-cased,
  with every underscore of the key doubled and every dot replaced by one underscore, and
  no other variable. For a default of string type, a non-empty value found there is
  returned whatever the configuration document holds, and an empty value found there is
  treated as if the variable were not set.
\<close>

theorem GetOrDefault_environment:
  assumes "\<forall>c \<in> set key. (of_char c :: nat) < 128"
  shows "envVarName key = specEnvVarName key
     \<and> (env (envVarName key) = env' (envVarName key) \<longrightarrow>
          GetOrDefault config env key d = GetOrDefault config env' key d)
     \<and> (\<forall>val. env (envVarName key) = Some val \<and> val \<noteq> [] \<and> typeOf d = TString \<longrightarrow>
          GetOrDefault config env key d = Return (GString val))
     \<and> (env (envVarName key) = Some [] \<and> typeOf d = TString \<longrightarrow>
          GetOrDefault config env key d = GetOrDefault config Map.empty key d)"
proof (intro conjI)
  show "envVarName key = specEnvVarName key" by (rule envVarName_spec)
  show "env (envVarName key) = env' (envVarName key) \<longrightarrow>
          GetOrDefault config env key d = GetOrDefault config env' key d"
    by (simp add: GetOrDefault_def findEnvProperty_def)
  show "\<forall>val. env (envVarName key) = Some val \<and> val \<noteq> [] \<and> typeOf d = TString \<longrightarrow>
          GetOrDefault config env key d = Return (GString val)"
    by (simp add: GetOrDefault_def findEnvProperty_string)
  show "env (envVarName key) = Some [] \<and> typeOf d = TString \<longrightarrow>
          GetOrDefault config env key d = GetOrDefault config Map.empty key d"
    by (simp add: GetOrDefault_def findEnvProperty_string findEnvProperty_unset)
qed

theorem GetOrDefault_environment_witness:
  "list_all (\<lambda>c. (of_char c :: nat) < 128) ''postgresql.transaction.window.maxsize''
   \<and> envVarName ''postgresql.transaction.window.maxsize''
       = ''POSTGRESQL_TRANSACTION_WINDOW_MAXSIZE''
   \<and> connectionEnv ''host=other'' (envVarName ''postgresql.connection'') = Some ''host=other''
   \<and> GetOrDefault (Config (PostgreSQLConfig ''host=db'' [] [])) (connectionEnv ''host=other'')
        ''postgresql.connection'' (GString []) = Return (GString ''host=other'')"
proof -
  have ascii: "\<forall>c \<in> set ''postgresql.transaction.window.maxsize''. (of_char c :: nat) < 128"
    "\<forall>c \<in> set ''postgresql.connection''. (of_char c :: nat) < 128"
    by simp_all
  have n1: "specEnvVarName ''postgresql.transaction.window.maxsize''
       = ''POSTGRESQL_TRANSACTION_WINDOW_MAXSIZE''"
    by code_simp
  have n2: "specEnvVarName ''postgresql.connection'' = ''POSTGRESQL_CONNECTION''"
    by code_simp
  note t1 = GetOrDefault_environment [OF ascii(1)]
  note t2 = GetOrDefault_environment [OF ascii(2), where env = "connectionEnv ''host=other''"
       and d = "GString []" and config = "Config (PostgreSQLConfig ''host=db'' [] [])"]
  have e: "envVarName ''postgresql.connection'' = ''POSTGRESQL_CONNECTION''"
    using t2 n2 by simp
  have l: "connectionEnv ''host=other'' (envVarName ''postgresql.connection'') = Some ''host=other''"
    by (simp add: e connectionEnv_def)
  show ?thesis
    using t1 t2 n1 l by simp
qed

lemma Convert_nonzero_source:
  "GetOrDefault config env key d = Return v \<Longrightarrow> v \<noteq> d \<Longrightarrow>
     (\<exists>val. env (envVarName key) = Some val \<and> Convert (GString val) (typeOf d) = Some v
            \<and> \<not> IsZero (GString val))
     \<or> (\<exists>element ro. walk (config, False) (Split key CHR ''.'') = Return (Some (element, ro))
            \<and> \<not> IsZero element \<and> Convert element (typeOf d) = Some v)"
  by (auto simp: GetOrDefault_def findEnvProperty_def Let_def
        split: result.splits option.splits if_splits prod.splits)

text \<open>
  Claim C9, as stated: for every default value, a zero value found in the configuration
  document yields the default, and an environment variable whose value is a zero value is
  treated as unset. For a default that is not a string this fails as soon as the variable
  is set: with \<open>timescaledb.events.read\<close> false in the document, the default true and the
  variable \<open>TIMESCALEDB_EVENTS_READ\<close> set to the empty string, \<open>findEnvProperty\<close> converts
  the string to \<open>bool\<close> before the zero test and the call panics.
\<close>

theorem GetOrDefault_zero_counterexample:
  "walk (zeroConfig, False) (Split ''timescaledb.events.read'' CHR ''.'')
     = Return (Some (GBool False, False))
   \<and> IsZero (GBool False)
   \<and> eventsReadEnv [] (envVarName ''timescaledb.events.read'') = Some []
   \<and> GetOrDefault zeroConfig (eventsReadEnv []) ''timescaledb.events.read'' (GBool True)
       = Panic
   \<and> GetOrDefault zeroConfig (eventsReadEnv []) ''timescaledb.events.read'' (GBool True)
       \<noteq> Return (GBool True)"
  by code_simp

text \<open>
  Claim C9, amended. For every property key (of ASCII characters) and default value,
  \<open>GetOrDefault\<close> returns the supplied default whenever the value found in the
  configuration document is a zero value (empty string, 0, false, nil pointer or slice, a
  struct of zero fields) and the environment variable of the key is not set; for a default
  of string type, a variable set to the empty string is likewise treated as unset.
  Conversely, a returned value that differs from the default was converted from a non-zero
  value of one of the two sources: a zero value of either source never overrides the
  default.
\<close>

theorem GetOrDefault_zero_is_unset:
  assumes "\<forall>c \<in> set key. (of_char c :: nat) < 128"
  shows
  "((env (envVarName key) = None
       \<or> (typeOf d = TString \<and> env (envVarName key) = Some []))
      \<and> walk (config, False) (Split key CHR ''.'') = Return (Some (element, ro))
      \<and> IsZero element
      \<longrightarrow> GetOrDefault config env key d = Return d)
   \<and> (GetOrDefault config env key d = Return v \<and> v \<noteq> d \<longrightarrow>
        (\<exists>val. env (envVarName key) = Some val \<and> Convert (GString val) (typeOf d) = Some v
            \<and> \<not> IsZero (GString val))
        \<or> (\<exists>element ro. walk (config, False) (Split key CHR ''.'') = Return (Some (element, ro))
            \<and> \<not> IsZero element \<and> Convert element (typeOf d) = Some v))"
proof (intro conjI impI)
  assume "(env (envVarName key) = None
       \<or> (typeOf d = TString \<and> env (envVarName key) = Some []))
      \<and> walk (config, False) (Split key CHR ''.'') = Return (Some (element, ro))
      \<and> IsZero element"
  then show "GetOrDefault config env key d = Return d"
    by (auto simp: GetOrDefault_def findEnvProperty_def Let_def)
next
  assume "GetOrDefault config env key d = Return v \<and> v \<noteq> d"
  then show "(\<exists>val. env (envVarName key) = Some val \<and> Convert (GString val) (typeOf d) = Some v
            \<and> \<not> IsZero (GString val))
        \<or> (\<exists>element ro. walk (config, False) (Split key CHR ''.'') = Return (Some (element, ro))
            \<and> \<not> IsZero element \<and> Convert element (typeOf d) = Some v)"
    using Convert_nonzero_source by blast
qed

theorem GetOrDefault_zero_is_unset_witness:
  "list_all (\<lambda>c. (of_char c :: nat) < 128) ''postgresql.connection''
   \<and> list_all (\<lambda>c. (of_char c :: nat) < 128) ''timescaledb.events.read''
   \<and> walk (zeroConfig, False) (Split ''postgresql.connection'' CHR ''.'')
     = Return (Some (GString [], False))
   \<and> IsZero (GString [])
   \<and> connectionEnv [] (envVarName ''postgresql.connection'') = Some []
   \<and> typeOf (GString ''d'') = TString
   \<and> GetOrDefault zeroConfig Map.empty ''postgresql.connection'' (GString ''d'')
       = Return (GString ''d'')
   \<and> GetOrDefault zeroConfig (connectionEnv []) ''postgresql.connection'' (GString ''d'')
       = Return (GString ''d'')
   \<and> walk (zeroConfig, False) (Split ''timescaledb.events.read'' CHR ''.'')
       = Return (Some (GBool False, False))
   \<and> IsZero (GBool False)
   \<and> GetOrDefault zeroConfig Map.empty ''timescaledb.events.read'' (GBool True)
       = Return (GBool True)"
proof -
  have ascii: "\<forall>c \<in> set ''postgresql.connection''. (of_char c :: nat) < 128"
    "\<forall>c \<in> set ''timescaledb.events.read''. (of_char c :: nat) < 128"
    by simp_all
  have w1: "walk (zeroConfig, False) (Split ''postgresql.connection'' CHR ''.'')
     = Return (Some (GString [], False))"
    by code_simp
  have w2: "walk (zeroConfig, False) (Split ''timescaledb.events.read'' CHR ''.'')
       = Return (Some (GBool False, False))"
    by code_simp
  have e1: "connectionEnv [] (envVarName ''postgresql.connection'') = Some []"
    by code_simp
  have e2: "Map.empty (envVarName key) = (None :: string option)" for key :: string
    by simp
  have "GetOrDefault zeroConfig Map.empty ''postgresql.connection'' (GString ''d'')
       = Return (GString ''d'')"
    using GetOrDefault_zero_is_unset
      [OF ascii(1), where env = Map.empty and config = zeroConfig
         and d = "GString ''d''" and element = "GString []" and ro = False]
      w1 e2 by simp
  moreover have "GetOrDefault zeroConfig (connectionEnv []) ''postgresql.connection''
       (GString ''d'') = Return (GString ''d'')"
    using GetOrDefault_zero_is_unset
      [OF ascii(1), where env = "connectionEnv []"
         and config = zeroConfig and d = "GString ''d''" and element = "GString []"
         and ro = False]
      w1 e1 by simp
  moreover have "GetOrDefault zeroConfig Map.empty ''timescaledb.events.read'' (GBool True)
       = Return (GBool True)"
    using GetOrDefault_zero_is_unset
      [OF ascii(2), where env = Map.empty
         and config = zeroConfig and d = "GBool True"
         and element = "GBool False" and ro = False]
      w2 e2 by simp
  ultimately show ?thesis
    using w1 w2 e1 by simp
qed

section \<open>Properties of the transaction resolver factory\<close>

lemma GetOrDefault_cases:
  assumes "GetOrDefault config env key d = Return v"
  shows "v = d
     \<or> (\<exists>val. Convert (GString val) (typeOf d) = Some v)
     \<or> (\<exists>element. \<not> IsZero element \<and> Convert element (typeOf d) = Some v)"
  using assms
  by (auto simp: GetOrDefault_def findEnvProperty_def Let_def
        split: result.splits option.splits if_splits prod.splits)

lemma GetOrDefault_bool_True:
  assumes "GetOrDefault config env key (GBool True) = Return v"
  shows "v = GBool True"
proof -
  from GetOrDefault_cases [OF assms] consider "v = GBool True"
    | val where "Convert (GString val) TBool = Some v"
    | element where "\<not> IsZero element" "Convert element TBool = Some v"
    by auto
  then show ?thesis
  proof cases
    case 3
    then show ?thesis by (cases element) (auto split: if_splits)
  qed auto
qed

lemma GetOrDefault_uint_nonzero:
  assumes "GetOrDefault config env key (GUint n) = Return v" and "n \<noteq> 0"
  shows "\<exists>u. v = GUint u \<and> u \<noteq> 0"
proof -
  from GetOrDefault_cases [OF assms(1)] consider "v = GUint n"
    | val where "Convert (GString val) TUint = Some v"
    | element where "\<not> IsZero element" "Convert element TUint = Some v"
    by auto
  then show ?thesis
  proof cases
    case 1
    then show ?thesis using assms(2) by simp
  next
    case 3
    then show ?thesis by (cases element) (auto split: if_splits)
  qed auto
qed

lemma NewTransactionResolver_always_tracker:
  assumes "NewTransactionResolver config env = Return h"
  shows "\<exists>timeout maxSize. h = newTransactionTracker timeout maxSize \<and> maxSize \<noteq> 0"
proof -
  obtain enabled d m where
    e: "GetOrDefault config env ''postgresql.transaction.window.enabled'' (GBool True)
          = Return (GBool enabled)"
    and m: "GetOrDefault config env ''postgresql.transaction.window.maxsize'' (GUint 10000)
          = Return (GUint m)"
    and h: "h = (if enabled \<and> m > 0 then newTransactionTracker (d * Second) m
                 else newLogicalReplicationResolver)"
    using assms
    by (auto simp: NewTransactionResolver_def Let_def
          split: result.splits gvalue.splits if_splits)
  have "enabled" using GetOrDefault_bool_True [OF e] by simp
  moreover have "m \<noteq> 0" using GetOrDefault_uint_nonzero [OF m] by simp
  ultimately show ?thesis using h by (auto simp: word_greater_zero_iff)
qed

text \<open>
  Claim C6 says that \<open>NewTransactionResolver\<close> returns the windowed transaction tracker
  when the transaction window is enabled and the plain logical replication resolver when
  it is not. With \<open>postgresql.transaction.window.enabled\<close> set to false in the
  configuration document (timeout 30, maximum size 500), the call returns the transaction
  tracker (30 s, 500): \<open>GetOrDefault\<close> takes the value false for an unset one and returns
  the default true. With the environment variable
  \<open>POSTGRESQL_TRANSACTION_WINDOW_ENABLED=false\<close> the call panics, a string not being
  convertible to bool. The lemma above shows that no configuration and no environment make
  the call return the plain resolver.
\<close>

theorem NewTransactionResolver_window_not_disabled:
  "NewTransactionResolver (windowConfig False 30 500) Map.empty
     = Return (newTransactionTracker 30000000000 500)
   \<and> NewTransactionResolver zeroConfig (windowEnabledEnv ''false'') = Panic
   \<and> NewTransactionResolver zeroConfig Map.empty
     = Return (newTransactionTracker 60000000000 10000)"
  by code_simp

section \<open>Properties of the command line entry point\<close>

lemma setFlag_debug: "debug (setFlag f g) = debug g"
  by (cases f) simp_all

lemma parseFlags_debug: "debug (parseFlags args g) = debug g"
  by (induction args arbitrary: g) (simp_all add: setFlag_debug)

lemma parseFlags_append: "parseFlags (xs @ ys) g = parseFlags ys (parseFlags xs g)"
  by (induction xs arbitrary: g) simp_all

lemma parseFlags_withCaller_unwritten:
  "\<forall>f \<in> set fs. \<not> writesWithCaller f \<Longrightarrow> withCaller (parseFlags fs g) = withCaller g"
proof (induction fs arbitrary: g)
  case Nil
  then show ?case by simp
next
  case (Cons f fs)
  then have "withCaller (setFlag f g) = withCaller g" by (cases f) simp_all
  with Cons show ?case by simp
qed

text \<open>
  Claim C8. The debug flag stores its value into \<open>withCaller\<close>, not into \<open>debug\<close>: for
  every command line, \<open>logging.WithDebug\<close> is false after \<open>start\<close>, since no flag writes
  \<open>debug\<close>; and when \<open>--debug\<close> is passed with value \<open>b\<close> and no later \<open>--debug\<close> or
  \<open>--caller\<close> follows it, \<open>logging.WithCaller\<close> is \<open>b\<close>, so that passing \<open>--debug\<close> enables
  caller collection.
\<close>

theorem debug_flag_sets_withCaller:
  "WithDebug (fst (main sys args)) = False
   \<and> (\<forall>b pre post. args = pre @ [DebugFlag b] @ post \<and> (\<forall>f \<in> set post. \<not> writesWithCaller f)
        \<longrightarrow> WithCaller (fst (main sys args)) = b)
   \<and> withCaller (setFlag (DebugFlag b') g) = b'
   \<and> debug (setFlag (DebugFlag b') g) = debug g"
proof (intro conjI allI impI)
  show "WithDebug (fst (main sys args)) = False"
    by (simp add: main_def start_def parseFlags_debug initialGlobals_def)
next
  fix b pre post
  assume a: "args = pre @ [DebugFlag b] @ post \<and> (\<forall>f \<in> set post. \<not> writesWithCaller f)"
  then have "withCaller (parseFlags args initialGlobals) = b"
    by (simp add: parseFlags_append parseFlags_withCaller_unwritten)
  then show "WithCaller (fst (main sys args)) = b"
    by (simp add: main_def start_def)
qed simp_all

theorem debug_flag_sets_withCaller_witness:
  "[VerboseFlag True, DebugFlag True, ConfigFlag ''c.toml'']
      = [VerboseFlag True] @ [DebugFlag True] @ [ConfigFlag ''c.toml'']
   \<and> list_all (\<lambda>f. \<not> writesWithCaller f) [ConfigFlag ''c.toml'']
   \<and> WithCaller (fst (main unopenable [VerboseFlag True, DebugFlag True, ConfigFlag ''c.toml''])) = True
   \<and> WithDebug (fst (main unopenable [VerboseFlag True, DebugFlag True, ConfigFlag ''c.toml''])) = False"
proof -
  note t = debug_flag_sets_withCaller
    [of unopenable "[VerboseFlag True, DebugFlag True, ConfigFlag ''c.toml'']"]
  have d: "WithDebug (fst (main unopenable [VerboseFlag True, DebugFlag True, ConfigFlag ''c.toml''])) = False"
    using t by (rule conjunct1)
  note u = t [THEN conjunct2, THEN conjunct1, rule_format,
    where b = True and pre = "[VerboseFlag True]" and post = "[ConfigFlag ''c.toml'']"]
  have c: "WithCaller (fst (main unopenable [VerboseFlag True, DebugFlag True, ConfigFlag ''c.toml''])) = True"
    using u by simp
  show ?thesis using c d by simp
qed

lemma start_open_fails:
  "configurationFile g \<noteq> [] \<Longrightarrow> osOpen sys (configurationFile g) = Inl err \<Longrightarrow>
     \<exists>msg. snd (start sys g) = StartReturn (Some (ExitError msg 3))"
  by (simp add: start_def loadConfiguration_def)

lemma start_read_fails:
  "configurationFile g \<noteq> [] \<Longrightarrow> osOpen sys (configurationFile g) = Inr f \<Longrightarrow>
     ioReadAll sys f = Inl err \<Longrightarrow>
     \<exists>msg. snd (start sys g) = StartReturn (Some (ExitError msg 4))"
  by (simp add: start_def loadConfiguration_def)

lemma start_decode_fails:
  "configurationFile g \<noteq> [] \<Longrightarrow> osOpen sys (configurationFile g) = Inr f \<Longrightarrow>
     ioReadAll sys f = Inr b \<Longrightarrow> tomlUnmarshal sys b = Inl err \<Longrightarrow>
     \<exists>msg. snd (start sys g) = StartReturn (Some (ExitError msg 5))"
  by (simp add: start_def loadConfiguration_def)

lemma start_connection_empty:
  "loadConfiguration sys g = Inr config \<Longrightarrow>
     GetOrDefault config (environ sys) ''postgresql.connection'' (GString []) = Return (GString [])
     \<Longrightarrow> snd (start sys g)
        = StartReturn (Some (ExitError ''PostgreSQL connection string required'' 6))"
  by (simp add: start_def)

lemma NewReplicationContext_extension_missing:
  "newTaskManager db = None \<Longrightarrow> sideChannelProvider db = Inr sideChannel \<Longrightarrow>
     GetPostgresVersion db sideChannel = Inr v \<Longrightarrow>
     GetTimescaleDBVersion db sideChannel = Inr (tv, False) \<Longrightarrow>
     NewReplicationContext settings manager db
        = Inl (ExitError ''TimescaleDB extension not found'' 17)"
  by (simp add: NewReplicationContext_def)

text \<open>
  Claim C7. \<open>start\<close> returns an exit error with code 3 when a configuration file is named
  and cannot be opened, 4 when it is opened and cannot be read, 5 when it is read and
  cannot be decoded, and 6 when the configuration is loaded and \<open>postgresql.connection\<close>
  resolves to the empty string. \<open>NewReplicationContext\<close> fails with exit code 17 when the
  task manager and the side channel are created, the PostgreSQL version is read and the
  TimescaleDB extension is reported as not found.
\<close>

theorem exit_codes:
  fixes sys :: "('f, 's) system" and db :: "'sc database"
  shows
  "(\<forall>err. configurationFile g \<noteq> [] \<and> osOpen sys (configurationFile g) = Inl err \<longrightarrow>
      (\<exists>msg. snd (start sys g) = StartReturn (Some (ExitError msg 3))))
   \<and> (\<forall>f err. configurationFile g \<noteq> [] \<and> osOpen sys (configurationFile g) = Inr f
         \<and> ioReadAll sys f = Inl err \<longrightarrow>
      (\<exists>msg. snd (start sys g) = StartReturn (Some (ExitError msg 4))))
   \<and> (\<forall>f b err. configurationFile g \<noteq> [] \<and> osOpen sys (configurationFile g) = Inr f
         \<and> ioReadAll sys f = Inr b \<and> tomlUnmarshal sys b = Inl err \<longrightarrow>
      (\<exists>msg. snd (start sys g) = StartReturn (Some (ExitError msg 5))))
   \<and> (\<forall>config. loadConfiguration sys g = Inr config
         \<and> GetOrDefault config (environ sys) ''postgresql.connection'' (GString [])
             = Return (GString []) \<longrightarrow>
      snd (start sys g)
        = StartReturn (Some (ExitError ''PostgreSQL connection string required'' 6)))
   \<and> (\<forall>sideChannel v tv. newTaskManager db = None \<and> sideChannelProvider db = Inr sideChannel
         \<and> GetPostgresVersion db sideChannel = Inr v
         \<and> GetTimescaleDBVersion db sideChannel = Inr (tv, False) \<longrightarrow>
      NewReplicationContext settings manager db
        = Inl (ExitError ''TimescaleDB extension not found'' 17))"
  using start_open_fails [of g sys] start_read_fails [of g sys] start_decode_fails [of g sys]
    start_connection_empty [of sys g]
    NewReplicationContext_extension_missing [of db _ _ _ settings manager]
  by blast

theorem exit_codes_witness:
  "configurationFile fileGlobals = ''config.toml''
   \<and> osOpen unopenable ''config.toml'' = Inl (Err ''no such file'')
   \<and> (\<exists>msg. snd (start unopenable fileGlobals) = StartReturn (Some (ExitError msg 3)))
   \<and> ioReadAll unreadable () = Inl (Err ''read error'')
   \<and> (\<exists>msg. snd (start unreadable fileGlobals) = StartReturn (Some (ExitError msg 4)))
   \<and> tomlUnmarshal undecodable [] = Inl (Err ''bad toml'')
   \<and> (\<exists>msg. snd (start undecodable fileGlobals) = StartReturn (Some (ExitError msg 5)))
   \<and> loadConfiguration (decodesTo zeroConfig) fileGlobals = Inr zeroConfig
   \<and> snd (start (decodesTo zeroConfig) fileGlobals)
       = StartReturn (Some (ExitError ''PostgreSQL connection string required'' 6))
   \<and> GetTimescaleDBVersion plainPostgres () = Inr (0, False)
   \<and> NewReplicationContext exampleSettings exampleManager plainPostgres
       = Inl (ExitError ''TimescaleDB extension not found'' 17)"
proof -
  have g: "configurationFile fileGlobals = ''config.toml''"
    by (simp add: fileGlobals_def initialGlobals_def)
  have o: "osOpen unopenable ''config.toml'' = Inl (Err ''no such file'')"
    "osOpen unreadable ''config.toml'' = Inr ()"
    "osOpen undecodable ''config.toml'' = Inr ()"
    "osOpen (decodesTo zeroConfig) ''config.toml'' = Inr ()"
    by (simp_all add: unopenable_def unreadable_def undecodable_def decodesTo_def
          systemWith_def)
  have r: "ioReadAll unreadable () = Inl (Err ''read error'')"
    "ioReadAll undecodable () = Inr []"
    "ioReadAll (decodesTo zeroConfig) () = Inr []"
    by (simp_all add: unreadable_def undecodable_def decodesTo_def systemWith_def)
  have u: "tomlUnmarshal undecodable [] = Inl (Err ''bad toml'')"
    "tomlUnmarshal (decodesTo zeroConfig) [] = Inr zeroConfig"
    by (simp_all add: undecodable_def decodesTo_def systemWith_def)
  have l: "loadConfiguration (decodesTo zeroConfig) fileGlobals = Inr zeroConfig"
    by (simp add: loadConfiguration_def g o r u)
  have e: "environ (decodesTo zeroConfig) = Map.empty"
    by (simp add: decodesTo_def systemWith_def)
  have c: "GetOrDefault zeroConfig Map.empty ''postgresql.connection'' (GString [])
             = Return (GString [])"
    by code_simp
  have p: "newTaskManager plainPostgres = None" "sideChannelProvider plainPostgres = Inr ()"
    "GetPostgresVersion plainPostgres () = Inr 150000"
    "GetTimescaleDBVersion plainPostgres () = Inr (0, False)"
    by (simp_all add: plainPostgres_def)
  have "\<exists>msg. snd (start unopenable fileGlobals) = StartReturn (Some (ExitError msg 3))"
    using exit_codes [THEN conjunct1, rule_format, of fileGlobals unopenable] g o by simp
  moreover have "\<exists>msg. snd (start unreadable fileGlobals) = StartReturn (Some (ExitError msg 4))"
    using exit_codes [THEN conjunct2, THEN conjunct1, rule_format, of fileGlobals unreadable]
      g o r by simp
  moreover have "\<exists>msg. snd (start undecodable fileGlobals)
                    = StartReturn (Some (ExitError msg 5))"
    using exit_codes [THEN conjunct2, THEN conjunct2, THEN conjunct1, rule_format,
        of fileGlobals undecodable] g o r u by simp
  moreover have "snd (start (decodesTo zeroConfig) fileGlobals)
       = StartReturn (Some (ExitError ''PostgreSQL connection string required'' 6))"
    using exit_codes [THEN conjunct2, THEN conjunct2, THEN conjunct2, THEN conjunct1,
        rule_format, of "decodesTo zeroConfig" fileGlobals zeroConfig] l e c by simp
  moreover have "NewReplicationContext exampleSettings exampleManager plainPostgres
       = Inl (ExitError ''TimescaleDB extension not found'' 17)"
    using exit_codes [THEN conjunct2, THEN conjunct2, THEN conjunct2, THEN conjunct2,
        rule_format, of plainPostgres "()" 150000 0 exampleSettings exampleManager] p by simp
  ultimately show ?thesis
    using g o r u l p by simp
qed

end
